theory Spec2Isabelle
  imports Complex_Main "HOL-Library.Word" "HOL-Library.AList"
begin

unbundle bit_operations_syntax

section \<open>Compression engine (src/src/fpga_engine/cache_engine.cpp)\<close>

text \<open>
  The codec works on vectors of \<open>float\<close>, \<open>int8_t\<close> and \<open>uint8_t\<close>.  Bytes of
  either signedness are \<open>8 word\<close> (the casts between \<open>int8_t\<close> and \<open>uint8_t\<close> keep
  the bit pattern); \<open>sint\<close> reads a byte as \<open>int8_t\<close>, \<open>unat\<close> as \<open>uint8_t\<close>, and
  the arithmetic of the delta stages wraps around.  Floats are idealised as reals; the
  concrete inputs used below are small integers, on which single precision arithmetic
  is exact.  The arguments \<open>num_tokens\<close>, \<open>hidden_dim\<close> and \<open>layer_id\<close> are not read by
  the source either.  The latency and ratio statistics that \<open>compress\<close> and
  \<open>decompress\<close> update are never read by the codec and are left out.
\<close>

type_synonym int8 = "8 word"
type_synonym uint8 = "8 word"

record CompressedData =
  scale_factor :: real
  rle_data :: "int8 list"
  original_size :: nat
  compressed_size :: nat

text \<open>\<open>std::round\<close>: to the nearest integer, halfway cases away from zero.\<close>

definition cround :: "real \<Rightarrow> int" where
  "cround x = (if 0 \<le> x then \<lfloor>x + 1 / 2\<rfloor> else - \<lfloor>- x + 1 / 2\<rfloor>)"

text \<open>
  \<open>static_cast<int8_t>\<close> of a rounded float.  Inside \<open>-128..127\<close> the conversion is
  exact.  Outside that range C++ leaves it undefined; \<open>oor\<close> is what the platform
  produces there.
\<close>

definition static_cast_int8 :: "(int \<Rightarrow> int8) \<Rightarrow> int \<Rightarrow> int8" where
  "static_cast_int8 oor r = (if - 128 \<le> r \<and> r \<le> 127 then word_of_int r else oor r)"

text \<open>
  The conversion compilers emit for x86-64 and AArch64: convert to a 32-bit integer and
  keep the low byte.
\<close>

definition truncating_cast :: "int \<Rightarrow> int8" where
  "truncating_cast r = word_of_int r"

definition compute_scale_factor :: "real list \<Rightarrow> real" where
  "compute_scale_factor data =
     (let max_val = fold (\<lambda>val max_val. if \<bar>val\<bar> > max_val then \<bar>val\<bar> else max_val) data 0
      in if max_val > 0 then max_val / 127 else 1)"

definition quantize_to_int8 :: "(int \<Rightarrow> int8) \<Rightarrow> real list \<Rightarrow> real \<Rightarrow> int8 list" where
  "quantize_to_int8 oor data scale =
     map (\<lambda>x. let scaled = x / scale;
                   quantized_val = static_cast_int8 oor (cround (scaled * 127))
               in word_of_int (max (- 128) (min 127 (sint quantized_val)))) data"

fun delta_encode_loop :: "int8 \<Rightarrow> int8 list \<Rightarrow> int8 list" where
  "delta_encode_loop prev [] = []"
| "delta_encode_loop prev (x # xs) = (x - prev) # delta_encode_loop x xs"

fun delta_encode :: "int8 list \<Rightarrow> int8 list" where
  "delta_encode [] = []"
| "delta_encode (x # xs) = x # delta_encode_loop x xs"

text \<open>
  The loop of \<open>run_length_encode\<close> from \<open>i = 1\<close>: the rest of the input, the current
  value, the current count and the output so far.
\<close>

fun run_length_encode_loop :: "int8 list \<Rightarrow> int8 \<Rightarrow> nat \<Rightarrow> uint8 list \<Rightarrow> uint8 list" where
  "run_length_encode_loop [] current_val count rle = rle @ [current_val, of_nat count]"
| "run_length_encode_loop (x # xs) current_val count rle =
     (if x = current_val \<and> count < 255
      then run_length_encode_loop xs current_val (count + 1) rle
      else run_length_encode_loop xs x 1 (rle @ [current_val, of_nat count]))"

fun run_length_encode :: "int8 list \<Rightarrow> uint8 list" where
  "run_length_encode [] = []"
| "run_length_encode (x # xs) = run_length_encode_loop xs x 1 []"

text \<open>
  The loop of \<open>run_length_decode\<close>: two bytes per step, stopping at a trailing unpaired
  byte.
\<close>

fun run_length_decode_loop :: "uint8 list \<Rightarrow> int8 list \<Rightarrow> int8 list" where
  "run_length_decode_loop (v # c # rest) decoded =
     run_length_decode_loop rest (decoded @ replicate (unat c) v)"
| "run_length_decode_loop [v] decoded = decoded"
| "run_length_decode_loop [] decoded = decoded"

definition run_length_decode :: "uint8 list \<Rightarrow> int8 list" where
  "run_length_decode rle = run_length_decode_loop rle []"

fun delta_decode_loop :: "int8 \<Rightarrow> int8 list \<Rightarrow> int8 list" where
  "delta_decode_loop prev [] = []"
| "delta_decode_loop prev (d # ds) = (prev + d) # delta_decode_loop (prev + d) ds"

fun delta_decode :: "int8 list \<Rightarrow> int8 list" where
  "delta_decode [] = []"
| "delta_decode (d # ds) = d # delta_decode_loop d ds"

definition dequantize_from_int8 :: "int8 list \<Rightarrow> real \<Rightarrow> real list" where
  "dequantize_from_int8 data scale =
     map (\<lambda>q. let scaled = real_of_int (sint q) / 127 in scaled * scale) data"

definition compress :: "(int \<Rightarrow> int8) \<Rightarrow> real list \<Rightarrow> nat \<Rightarrow> nat \<Rightarrow> 32 word \<Rightarrow> CompressedData" where
  "compress oor kv_data num_tokens hidden_dim layer_id =
     (let scale = compute_scale_factor kv_data;
          quantized = quantize_to_int8 oor kv_data scale;
          delta_encoded = delta_encode quantized;
          rle_encoded = run_length_encode delta_encoded
      in \<lparr> scale_factor = scale, rle_data = rle_encoded,
           original_size = length kv_data * 4, compressed_size = length rle_encoded \<rparr>)"

definition decompress :: "CompressedData \<Rightarrow> nat \<Rightarrow> nat \<Rightarrow> real list" where
  "decompress compressed num_tokens hidden_dim =
     (let delta_decoded = run_length_decode (rle_data compressed);
          quantized = delta_decode delta_decoded
      in dequantize_from_int8 quantized (scale_factor compressed))"

text \<open>The quantizer as the specification words it: round, then clamp, then narrow.\<close>

definition quantize_spec :: "real list \<Rightarrow> real \<Rightarrow> int8 list" where
  "quantize_spec data s =
     map (\<lambda>x. word_of_int (max (- 128) (min 127 (cround ((x / s) * 127))))) data"



section \<open>Coherence manager (src/src/cxl_memory/coherence_manager.cpp)\<close>

text \<open>
  The shadow directory \<open>directory_\<close> is an association list from cache-line addresses
  to entries: lookups go through \<open>map_of\<close>, a write through an entry pointer is
  \<open>AList.update\<close> at its key.  \<open>driver\<close> says that \<open>driver_\<close> is not null; it is set
  by the constructor and never assigned again.  Every reading of the steady clock is
  an argument \<open>now\<close>.  The mutexes are not modelled: each operation runs alone.
  The nested enum \<open>CoherenceManager::MemoryTier\<close> is \<open>MemoryTier_coh\<close>, the
  namespace-level \<open>MemoryTier\<close> of the allocator keeps its name.
\<close>

datatype CoherenceState = INVALID | SHARED | EXCLUSIVE | MODIFIED

datatype MemoryTier_coh = L1_GPU | L2_PREFETCH_coh | L3_CXL

datatype CoherenceOp = READ | WRITE | INVALIDATE | WRITEBACK | FLUSH

record DirectoryEntry =
  cache_line_addr :: "64 word"
  state :: CoherenceState
  tier :: MemoryTier_coh
  last_access_time :: "64 word"
  access_count :: "32 word"
  pending_operation :: bool

record Statistics =
  total_reads :: "64 word"
  total_writes :: "64 word"
  coherence_ops :: "64 word"
  invalidations_sent :: "64 word"
  writebacks_performed :: "64 word"
  directory_hits :: "64 word"
  directory_misses :: "64 word"

record CoherenceManager =
  driver :: bool
  cache_line_size :: "64 word"
  directory :: "(64 word \<times> DirectoryEntry) list"
  stats :: Statistics
  pending_ops :: "32 word"

definition DirectoryEntry_new :: DirectoryEntry where
  "DirectoryEntry_new =
     \<lparr> cache_line_addr = 0, state = INVALID, tier = L3_CXL, last_access_time = 0,
       access_count = 0, pending_operation = False \<rparr>"

definition Statistics_zero :: Statistics where
  "Statistics_zero =
     \<lparr> total_reads = 0, total_writes = 0, coherence_ops = 0, invalidations_sent = 0,
       writebacks_performed = 0, directory_hits = 0, directory_misses = 0 \<rparr>"

definition CoherenceManager_new :: "bool \<Rightarrow> 64 word \<Rightarrow> CoherenceManager" where
  "CoherenceManager_new drv cls =
     \<lparr> driver = drv, cache_line_size = cls, directory = [], stats = Statistics_zero,
       pending_ops = 0 \<rparr>"

definition align_to_cache_line :: "CoherenceManager \<Rightarrow> 64 word \<Rightarrow> 64 word" where
  "align_to_cache_line s addr = addr AND NOT (cache_line_size s - 1)"

definition get_entry :: "CoherenceManager \<Rightarrow> 64 word \<Rightarrow> DirectoryEntry option" where
  "get_entry s addr = map_of (directory s) addr"

text \<open>Writing through the entry pointer obtained for \<open>addr\<close>.\<close>

definition put_entry :: "64 word \<Rightarrow> DirectoryEntry \<Rightarrow> CoherenceManager \<Rightarrow> CoherenceManager" where
  "put_entry addr e s = s\<lparr>directory := AList.update addr e (directory s)\<rparr>"

definition get_or_create_entry ::
  "64 word \<Rightarrow> CoherenceManager \<Rightarrow> DirectoryEntry \<times> CoherenceManager" where
  "get_or_create_entry addr s =
     (case get_entry s addr of
        Some e \<Rightarrow> (e, s)
      | None \<Rightarrow>
          (let entry = DirectoryEntry_new\<lparr>cache_line_addr := addr\<rparr>
           in (entry, put_entry addr entry s)))"

fun update_statistics :: "CoherenceOp \<Rightarrow> bool \<Rightarrow> Statistics \<Rightarrow> Statistics" where
  "update_statistics READ hit st =
     (let st1 = st\<lparr>total_reads := total_reads st + 1\<rparr>
      in if hit then st1\<lparr>directory_hits := directory_hits st1 + 1\<rparr>
         else st1\<lparr>directory_misses := directory_misses st1 + 1\<rparr>)"
| "update_statistics WRITE hit st =
     (let st1 = st\<lparr>total_writes := total_writes st + 1\<rparr>
      in if hit then st1\<lparr>directory_hits := directory_hits st1 + 1\<rparr>
         else st1\<lparr>directory_misses := directory_misses st1 + 1\<rparr>)"
| "update_statistics INVALIDATE hit st = st\<lparr>coherence_ops := coherence_ops st + 1\<rparr>"
| "update_statistics WRITEBACK hit st = st\<lparr>coherence_ops := coherence_ops st + 1\<rparr>"
| "update_statistics FLUSH hit st = st\<lparr>coherence_ops := coherence_ops st + 1\<rparr>"

definition wait_for_fpga_completion :: bool where
  "wait_for_fpga_completion = True"

definition send_coherence_op_to_fpga ::
  "CoherenceOp \<Rightarrow> 64 word \<Rightarrow> CoherenceManager \<Rightarrow> bool \<times> CoherenceManager" where
  "send_coherence_op_to_fpga op addr s =
     (if \<not> driver s then (False, s)
      else
        (let s1 = s\<lparr>pending_ops := pending_ops s + 1\<rparr>;
             success = wait_for_fpga_completion;
             s2 = s1\<lparr>pending_ops := pending_ops s1 - 1\<rparr>;
             s3 = s2\<lparr>stats := update_statistics op True (stats s2)\<rparr>
         in (success, s3)))"

text \<open>The miss path of \<open>request_read\<close>, from \<open>update_statistics(READ, false)\<close> on.\<close>

definition request_read_miss ::
  "64 word \<Rightarrow> 64 word \<Rightarrow> CoherenceManager \<Rightarrow> bool \<times> CoherenceManager" where
  "request_read_miss now cl_addr s =
     (let s1 = s\<lparr>stats := update_statistics READ False (stats s)\<rparr>;
          (success, s2) = send_coherence_op_to_fpga READ cl_addr s1
      in if success
         then (let (new_entry, s3) = get_or_create_entry cl_addr s2
               in (True, put_entry cl_addr
                     (new_entry\<lparr>state := SHARED, tier := L1_GPU, last_access_time := now,
                        access_count := 1\<rparr>) s3))
         else (False, s2))"

definition request_read ::
  "64 word \<Rightarrow> 64 word \<Rightarrow> CoherenceManager \<Rightarrow> bool \<times> CoherenceManager" where
  "request_read now addr s =
     (let cl_addr = align_to_cache_line s addr
      in case get_entry s cl_addr of
           Some entry \<Rightarrow>
             if state entry = SHARED \<or> state entry = EXCLUSIVE \<or> state entry = MODIFIED
             then (let s1 = s\<lparr>stats := update_statistics READ True (stats s)\<rparr>
                   in (True, put_entry cl_addr
                         (entry\<lparr>last_access_time := now,
                            access_count := access_count entry + 1\<rparr>) s1))
             else request_read_miss now cl_addr s
         | None \<Rightarrow> request_read_miss now cl_addr s)"

definition request_write ::
  "64 word \<Rightarrow> 64 word \<Rightarrow> CoherenceManager \<Rightarrow> bool \<times> CoherenceManager" where
  "request_write now addr s =
     (let cl_addr = align_to_cache_line s addr;
          entry = get_entry s cl_addr;
          s1 = (case entry of
                  Some e \<Rightarrow>
                    if state e = SHARED
                    then (let sa = s\<lparr>stats := update_statistics INVALIDATE False (stats s)\<rparr>
                          in sa\<lparr>stats := (stats sa)\<lparr>invalidations_sent :=
                                invalidations_sent (stats sa) + 1\<rparr>\<rparr>)
                    else s
                | None \<Rightarrow> s);
          s2 = s1\<lparr>stats := update_statistics WRITE (entry \<noteq> None) (stats s1)\<rparr>;
          (success, s3) = send_coherence_op_to_fpga WRITE cl_addr s2
      in if success
         then (let (new_entry, s4) = get_or_create_entry cl_addr s3
               in (True, put_entry cl_addr
                     (new_entry\<lparr>state := MODIFIED, tier := L1_GPU, last_access_time := now,
                        access_count := access_count new_entry + 1\<rparr>) s4))
         else (False, s3))"

definition invalidate :: "64 word \<Rightarrow> CoherenceManager \<Rightarrow> bool \<times> CoherenceManager" where
  "invalidate addr s =
     (let cl_addr = align_to_cache_line s addr
      in case get_entry s cl_addr of
           None \<Rightarrow> (True, s)
         | Some entry \<Rightarrow>
             (let s1 = (if state entry = MODIFIED
                        then s\<lparr>stats := (stats s)\<lparr>writebacks_performed :=
                               writebacks_performed (stats s) + 1\<rparr>\<rparr>
                        else s);
                  s2 = put_entry cl_addr (entry\<lparr>state := INVALID\<rparr>) s1;
                  (success, s3) = send_coherence_op_to_fpga INVALIDATE cl_addr s2;
                  s4 = s3\<lparr>stats := (stats s3)\<lparr>invalidations_sent :=
                         invalidations_sent (stats s3) + 1\<rparr>\<rparr>
              in (success, s4)))"

definition writeback :: "64 word \<Rightarrow> CoherenceManager \<Rightarrow> bool \<times> CoherenceManager" where
  "writeback addr s =
     (let cl_addr = align_to_cache_line s addr
      in case get_entry s cl_addr of
           None \<Rightarrow> (True, s)
         | Some entry \<Rightarrow>
             if state entry \<noteq> MODIFIED then (True, s)
             else
               (let (success, s1) = send_coherence_op_to_fpga WRITEBACK cl_addr s
                in if success
                   then (let s2 = put_entry cl_addr
                                    (entry\<lparr>state := SHARED, tier := L3_CXL\<rparr>) s1
                         in (True, s2\<lparr>stats := (stats s2)\<lparr>writebacks_performed :=
                                     writebacks_performed (stats s2) + 1\<rparr>\<rparr>))
                   else (False, s1)))"

text \<open>
  One step of the loop of \<open>flush_all\<close> over the directory, at the key \<open>addr\<close>; the
  result of the transport call is dropped, as in the source.
\<close>

definition flush_step ::
  "64 word \<Rightarrow> CoherenceManager \<times> nat \<Rightarrow> CoherenceManager \<times> nat" where
  "flush_step addr = (\<lambda>(s, flushed).
     case get_entry s addr of
       None \<Rightarrow> (s, flushed)
     | Some entry \<Rightarrow>
         if state entry = MODIFIED
         then (let (success, s1) = send_coherence_op_to_fpga WRITEBACK addr s
               in (put_entry addr (entry\<lparr>state := SHARED, tier := L3_CXL\<rparr>) s1,
                   flushed + 1))
         else (s, flushed))"

definition flush_all :: "CoherenceManager \<Rightarrow> bool \<times> CoherenceManager" where
  "flush_all s =
     (let (s1, flushed) = fold flush_step (map fst (directory s)) (s, 0)
      in (True, s1\<lparr>stats := (stats s1)\<lparr>writebacks_performed :=
                    writebacks_performed (stats s1) + of_nat flushed\<rparr>\<rparr>))"

definition get_state :: "CoherenceManager \<Rightarrow> 64 word \<Rightarrow> CoherenceState" where
  "get_state s addr =
     (case get_entry s (align_to_cache_line s addr) of
        Some entry \<Rightarrow> state entry
      | None \<Rightarrow> INVALID)"

definition get_tier :: "CoherenceManager \<Rightarrow> 64 word \<Rightarrow> MemoryTier_coh" where
  "get_tier s addr =
     (case get_entry s (align_to_cache_line s addr) of
        Some entry \<Rightarrow> tier entry
      | None \<Rightarrow> L3_CXL)"

definition promote_to_l1_coh :: "64 word \<Rightarrow> CoherenceManager \<Rightarrow> bool \<times> CoherenceManager" where
  "promote_to_l1_coh addr s =
     (let cl_addr = align_to_cache_line s addr;
          (entry, s1) = get_or_create_entry cl_addr s
      in if tier entry = L1_GPU then (True, s1)
         else
           (let (success, s2) = send_coherence_op_to_fpga READ cl_addr s1
            in if success
               then (True, put_entry cl_addr (entry\<lparr>tier := L1_GPU\<rparr>) s2)
               else (False, s2)))"

definition demote_to_l3_coh :: "64 word \<Rightarrow> CoherenceManager \<Rightarrow> bool \<times> CoherenceManager" where
  "demote_to_l3_coh addr s =
     (let cl_addr = align_to_cache_line s addr
      in case get_entry s cl_addr of
           None \<Rightarrow> (True, s)
         | Some entry \<Rightarrow>
             if tier entry = L3_CXL then (True, s)
             else
               (let (entry1, s1) =
                      (if state entry = MODIFIED
                       then (let (success, sa) =
                                   send_coherence_op_to_fpga WRITEBACK cl_addr s
                             in (entry\<lparr>state := SHARED\<rparr>,
                                 sa\<lparr>stats := (stats sa)\<lparr>writebacks_performed :=
                                       writebacks_performed (stats sa) + 1\<rparr>\<rparr>))
                       else (entry, s))
                in (True, put_entry cl_addr (entry1\<lparr>tier := L3_CXL\<rparr>) s1)))"

definition update_tier :: "64 word \<Rightarrow> MemoryTier_coh \<Rightarrow> CoherenceManager \<Rightarrow> CoherenceManager" where
  "update_tier addr new_tier s =
     (let cl_addr = align_to_cache_line s addr;
          (entry, s1) = get_or_create_entry cl_addr s
      in put_entry cl_addr (entry\<lparr>tier := new_tier\<rparr>) s1)"

definition batch_invalidate_step ::
  "64 word \<Rightarrow> CoherenceManager \<times> bool \<Rightarrow> CoherenceManager \<times> bool" where
  "batch_invalidate_step addr = (\<lambda>(s, all_success).
     let cl_addr = align_to_cache_line s addr
     in case get_entry s cl_addr of
          None \<Rightarrow> (s, all_success)
        | Some entry \<Rightarrow>
            (let s1 = put_entry cl_addr (entry\<lparr>state := INVALID\<rparr>) s;
                 (success, s2) = send_coherence_op_to_fpga INVALIDATE cl_addr s1
             in (s2, all_success \<and> success)))"

definition batch_invalidate :: "64 word list \<Rightarrow> CoherenceManager \<Rightarrow> bool \<times> CoherenceManager" where
  "batch_invalidate addrs s =
     (let (s1, all_success) = fold batch_invalidate_step addrs (s, True)
      in (all_success, s1\<lparr>stats := (stats s1)\<lparr>invalidations_sent :=
                           invalidations_sent (stats s1) + of_nat (length addrs)\<rparr>\<rparr>))"

definition batch_writeback_step ::
  "64 word \<Rightarrow> CoherenceManager \<times> bool \<Rightarrow> CoherenceManager \<times> bool" where
  "batch_writeback_step addr = (\<lambda>(s, all_success).
     let cl_addr = align_to_cache_line s addr
     in case get_entry s cl_addr of
          None \<Rightarrow> (s, all_success)
        | Some entry \<Rightarrow>
            if state entry = MODIFIED
            then (let (success, s1) = send_coherence_op_to_fpga WRITEBACK cl_addr s
                  in (put_entry cl_addr (entry\<lparr>state := SHARED, tier := L3_CXL\<rparr>) s1,
                      all_success \<and> success))
            else (s, all_success))"

text \<open>The data pointers of \<open>batch_writeback\<close> are not read by it; only the addresses are kept.\<close>

definition batch_writeback :: "64 word list \<Rightarrow> CoherenceManager \<Rightarrow> bool \<times> CoherenceManager" where
  "batch_writeback data s =
     (let (s1, all_success) = fold batch_writeback_step data (s, True)
      in (all_success, s1\<lparr>stats := (stats s1)\<lparr>writebacks_performed :=
                           writebacks_performed (stats s1) + of_nat (length data)\<rparr>\<rparr>))"

definition reset_statistics :: "CoherenceManager \<Rightarrow> CoherenceManager" where
  "reset_statistics s = s\<lparr>stats := Statistics_zero\<rparr>"

text \<open>
  The public operations that change a manager, as calls, and a run of calls on a
  manager.  \<open>sync_directory_from_fpga\<close> and the queries change nothing.
\<close>

datatype coherence_call =
    Request_read "64 word" "64 word"
  | Request_write "64 word" "64 word"
  | Invalidate "64 word"
  | Writeback "64 word"
  | Flush_all
  | Promote_to_l1 "64 word"
  | Demote_to_l3 "64 word"
  | Update_tier "64 word" MemoryTier_coh
  | Batch_invalidate "64 word list"
  | Batch_writeback "64 word list"
  | Reset_statistics

fun call :: "coherence_call \<Rightarrow> CoherenceManager \<Rightarrow> CoherenceManager" where
  "call (Request_read now addr) s = snd (request_read now addr s)"
| "call (Request_write now addr) s = snd (request_write now addr s)"
| "call (Invalidate addr) s = snd (invalidate addr s)"
| "call (Writeback addr) s = snd (writeback addr s)"
| "call Flush_all s = snd (flush_all s)"
| "call (Promote_to_l1 addr) s = snd (promote_to_l1_coh addr s)"
| "call (Demote_to_l3 addr) s = snd (demote_to_l3_coh addr s)"
| "call (Update_tier addr new_tier) s = update_tier addr new_tier s"
| "call (Batch_invalidate addrs) s = snd (batch_invalidate addrs s)"
| "call (Batch_writeback data) s = snd (batch_writeback data s)"
| "call Reset_statistics s = reset_statistics s"

definition run_calls :: "coherence_call list \<Rightarrow> CoherenceManager \<Rightarrow> CoherenceManager" where
  "run_calls calls s = fold call calls s"

text \<open>
  The four coherence operations on a line, by operation code (a \<open>FLUSH\<close> is
  \<open>flush_all\<close>).
\<close>

fun coherence_op ::
  "CoherenceOp \<Rightarrow> 64 word \<Rightarrow> 64 word \<Rightarrow> CoherenceManager \<Rightarrow> bool \<times> CoherenceManager" where
  "coherence_op READ now addr s = request_read now addr s"
| "coherence_op WRITE now addr s = request_write now addr s"
| "coherence_op INVALIDATE now addr s = invalidate addr s"
| "coherence_op WRITEBACK now addr s = writeback addr s"
| "coherence_op FLUSH now addr s = flush_all s"

text \<open>
  Whether the operation reaches a call of \<open>send_coherence_op_to_fpga\<close> from the state
  \<open>s\<close>: a read on a miss, a write always, an invalidation when the line has an entry, a
  writeback when the entry is \<open>MODIFIED\<close>, a flush when some entry is \<open>MODIFIED\<close>.
\<close>

fun issues_transport :: "CoherenceOp \<Rightarrow> 64 word \<Rightarrow> CoherenceManager \<Rightarrow> bool" where
  "issues_transport READ addr s =
     (case get_entry s (align_to_cache_line s addr) of
        Some entry \<Rightarrow>
          \<not> (state entry = SHARED \<or> state entry = EXCLUSIVE \<or> state entry = MODIFIED)
      | None \<Rightarrow> True)"
| "issues_transport WRITE addr s = True"
| "issues_transport INVALIDATE addr s =
     (get_entry s (align_to_cache_line s addr) \<noteq> None)"
| "issues_transport WRITEBACK addr s =
     (case get_entry s (align_to_cache_line s addr) of
        Some entry \<Rightarrow> state entry = MODIFIED
      | None \<Rightarrow> False)"
| "issues_transport FLUSH addr s =
     list_ex (\<lambda>x. state (snd x) = MODIFIED) (directory s)"

text \<open>
  The transport call of the operation fails: the operation reaches the call, and
  \<open>send_coherence_op_to_fpga\<close> returns false.
\<close>

definition transport_fails :: "CoherenceOp \<Rightarrow> 64 word \<Rightarrow> CoherenceManager \<Rightarrow> bool" where
  "transport_fails op addr s =
     (issues_transport op addr s
      \<and> \<not> fst (send_coherence_op_to_fpga op (align_to_cache_line s addr) s))"


text \<open>Every directory entry is in state \<open>INVALID\<close>.\<close>

definition all_invalid :: "CoherenceManager \<Rightarrow> bool" where
  "all_invalid s = (\<forall>x \<in> set (directory s). state (snd x) = INVALID)"


section \<open>Tiered page allocator (src/src/cxl_memory/cxl_memory_manager.cpp)\<close>

text \<open>
  \<open>size_t\<close> and \<open>uint64_t\<close> are \<open>64 word\<close>: sums and products wrap around as the
  unsigned arithmetic of the source does.  \<open>page_table_\<close> is a map from page addresses to
  pages; the three tier vectors and the LRU vector are lists.  The enum \<open>PageState\<close> and
  the fields of \<open>MemoryPage\<close> whose names the directory entry already uses carry the
  suffix \<open>_page\<close>; the record \<open>Statistics\<close> of the allocator and its field carry
  \<open>_mm\<close>.  Clock readings are arguments.  The mutexes are not modelled.
\<close>

datatype MemoryTier = L1_GPU_LOCAL | L2_PREFETCH | L3_CXL_POOL

datatype PageState = INVALID_page | SHARED_page | EXCLUSIVE_page | MODIFIED_page

record MemoryPage =
  virtual_addr :: "64 word"
  physical_addr :: "64 word"
  tier_page :: MemoryTier
  state_page :: PageState
  access_count_page :: "32 word"
  last_access_time_page :: "64 word"
  is_hot :: bool
  layer_id :: "32 word"

record Statistics_mm =
  l1_hits :: "64 word"
  l1_misses :: "64 word"
  l2_hits :: "64 word"
  l2_misses :: "64 word"
  l3_accesses :: "64 word"
  migrations_l1_to_l3 :: "64 word"
  migrations_l3_to_l1 :: "64 word"

record CXLMemoryManager =
  l1_size_bytes :: "64 word"
  l2_size_bytes :: "64 word"
  l3_size_bytes :: "64 word"
  page_size :: "64 word"
  page_table :: "64 word \<rightharpoonup> MemoryPage"
  l1_pages :: "64 word list"
  l2_pages :: "64 word list"
  l3_pages :: "64 word list"
  next_virtual_addr :: "64 word"
  next_physical_addr_l1 :: "64 word"
  next_physical_addr_l2 :: "64 word"
  next_physical_addr_l3 :: "64 word"
  l1_lru_list :: "64 word list"
  stats_mm :: Statistics_mm

definition Statistics_mm_zero :: Statistics_mm where
  "Statistics_mm_zero =
     \<lparr> l1_hits = 0, l1_misses = 0, l2_hits = 0, l2_misses = 0, l3_accesses = 0,
       migrations_l1_to_l3 = 0, migrations_l3_to_l1 = 0 \<rparr>"

definition CXLMemoryManager_new ::
  "64 word \<Rightarrow> 64 word \<Rightarrow> 64 word \<Rightarrow> 64 word \<Rightarrow> CXLMemoryManager" where
  "CXLMemoryManager_new l1_size_gb l2_size_gb l3_size_gb ps =
     \<lparr> l1_size_bytes = l1_size_gb * 1024 * 1024 * 1024,
       l2_size_bytes = l2_size_gb * 1024 * 1024 * 1024,
       l3_size_bytes = l3_size_gb * 1024 * 1024 * 1024,
       page_size = ps,
       page_table = Map.empty,
       l1_pages = [], l2_pages = [], l3_pages = [],
       next_virtual_addr = 0x100000000,
       next_physical_addr_l1 = 0x8000000000,
       next_physical_addr_l2 = 0x10000000000,
       next_physical_addr_l3 = 0x20000000000,
       l1_lru_list = [],
       stats_mm = Statistics_mm_zero \<rparr>"

definition can_fit_in_tier :: "CXLMemoryManager \<Rightarrow> MemoryTier \<Rightarrow> 64 word \<Rightarrow> bool" where
  "can_fit_in_tier s t size_bytes =
     (let (used, available) =
            (case t of
               L1_GPU_LOCAL \<Rightarrow> (of_nat (length (l1_pages s)) * page_size s, l1_size_bytes s)
             | L2_PREFETCH \<Rightarrow> (of_nat (length (l2_pages s)) * page_size s, l2_size_bytes s)
             | L3_CXL_POOL \<Rightarrow> (of_nat (length (l3_pages s)) * page_size s, l3_size_bytes s))
      in used + size_bytes \<le> available)"

text \<open>The locals \<open>num_pages\<close>, \<open>required_bytes\<close> and \<open>actual_tier\<close> of \<open>allocate\<close>.\<close>

definition num_pages :: "CXLMemoryManager \<Rightarrow> 64 word \<Rightarrow> 64 word" where
  "num_pages s size_bytes = (size_bytes + page_size s - 1) div page_size s"

definition required_bytes :: "CXLMemoryManager \<Rightarrow> 64 word \<Rightarrow> 64 word" where
  "required_bytes s size_bytes = num_pages s size_bytes * page_size s"

definition actual_tier :: "CXLMemoryManager \<Rightarrow> 64 word \<Rightarrow> MemoryTier \<Rightarrow> MemoryTier" where
  "actual_tier s size_bytes preferred_tier =
     (if preferred_tier = L1_GPU_LOCAL
         \<and> \<not> can_fit_in_tier s L1_GPU_LOCAL (required_bytes s size_bytes)
      then L3_CXL_POOL else preferred_tier)"

text \<open>
  The page entry that the loop of \<open>allocate\<close> creates at index \<open>i\<close>; \<open>now i\<close> is the
  clock reading of that iteration.
\<close>

definition new_page ::
  "(nat \<Rightarrow> 64 word) \<Rightarrow> 64 word \<Rightarrow> 64 word \<Rightarrow> 64 word \<Rightarrow> MemoryTier \<Rightarrow> 32 word \<Rightarrow> nat
   \<Rightarrow> MemoryPage" where
  "new_page now va physical_addr_base ps t layer i =
     \<lparr> virtual_addr = va + of_nat i * ps,
       physical_addr = physical_addr_base + of_nat i * ps,
       tier_page = t, state_page = EXCLUSIVE_page, access_count_page = 0,
       last_access_time_page = now i, is_hot = False, layer_id = layer \<rparr>"

definition create_pages ::
  "(nat \<Rightarrow> 64 word) \<Rightarrow> 64 word \<Rightarrow> 64 word \<Rightarrow> 64 word \<Rightarrow> MemoryTier \<Rightarrow> 32 word \<Rightarrow> nat
   \<Rightarrow> (64 word \<rightharpoonup> MemoryPage) \<Rightarrow> (64 word \<rightharpoonup> MemoryPage)" where
  "create_pages now va physical_addr_base ps t layer n pt =
     fold (\<lambda>i pt. pt(va + of_nat i * ps \<mapsto> new_page now va physical_addr_base ps t layer i))
       [0..<n] pt"

text \<open>
  The body of \<open>allocate\<close>, for a manager whose \<open>page_size_\<close> is not zero.
\<close>

definition allocate_body ::
  "(nat \<Rightarrow> 64 word) \<Rightarrow> 64 word \<Rightarrow> 32 word \<Rightarrow> MemoryTier \<Rightarrow> CXLMemoryManager
   \<Rightarrow> 64 word \<times> CXLMemoryManager" where
  "allocate_body now size_bytes layer preferred_tier s =
     (let n = num_pages s size_bytes;
          required = required_bytes s size_bytes;
          t = actual_tier s size_bytes preferred_tier;
          va = next_virtual_addr s;
          (physical_addr_base, s1) =
            (case t of
               L1_GPU_LOCAL \<Rightarrow>
                 (next_physical_addr_l1 s,
                  s\<lparr>next_physical_addr_l1 := next_physical_addr_l1 s + required,
                    l1_pages := l1_pages s @ [va]\<rparr>)
             | L2_PREFETCH \<Rightarrow>
                 (next_physical_addr_l2 s,
                  s\<lparr>next_physical_addr_l2 := next_physical_addr_l2 s + required,
                    l2_pages := l2_pages s @ [va]\<rparr>)
             | L3_CXL_POOL \<Rightarrow>
                 (next_physical_addr_l3 s,
                  s\<lparr>next_physical_addr_l3 := next_physical_addr_l3 s + required,
                    l3_pages := l3_pages s @ [va]\<rparr>));
          s2 = s1\<lparr>page_table :=
                 create_pages now va physical_addr_base (page_size s) t layer (unat n)
                   (page_table s1)\<rparr>
      in (va, s2\<lparr>next_virtual_addr := next_virtual_addr s2 + required\<rparr>))"

text \<open>
  \<open>allocate\<close> divides by \<open>page_size_\<close>.  The constructor accepts a page size of zero,
  and the division is then undefined (a trap on the usual targets): that outcome is
  \<open>None\<close>.  The same holds for the operations below that align an address to a page.
\<close>

definition allocate ::
  "(nat \<Rightarrow> 64 word) \<Rightarrow> 64 word \<Rightarrow> 32 word \<Rightarrow> MemoryTier \<Rightarrow> CXLMemoryManager
   \<Rightarrow> (64 word \<times> CXLMemoryManager) option" where
  "allocate now size_bytes layer preferred_tier s =
     (if page_size s = 0 then None
      else Some (allocate_body now size_bytes layer preferred_tier s))"

definition deallocate :: "64 word \<Rightarrow> CXLMemoryManager \<Rightarrow> CXLMemoryManager" where
  "deallocate va s =
     (case page_table s va of
        None \<Rightarrow> s
      | Some page \<Rightarrow>
          (let s1 = (case tier_page page of
                       L1_GPU_LOCAL \<Rightarrow>
                         s\<lparr>l1_pages := removeAll va (l1_pages s),
                           l1_lru_list := removeAll va (l1_lru_list s)\<rparr>
                     | L2_PREFETCH \<Rightarrow> s\<lparr>l2_pages := removeAll va (l2_pages s)\<rparr>
                     | L3_CXL_POOL \<Rightarrow> s\<lparr>l3_pages := removeAll va (l3_pages s)\<rparr>)
           in s1\<lparr>page_table := (page_table s1)(va := None)\<rparr>))"

definition page_addr_of :: "CXLMemoryManager \<Rightarrow> 64 word \<Rightarrow> 64 word" where
  "page_addr_of s va = (va div page_size s) * page_size s"

definition get_page :: "CXLMemoryManager \<Rightarrow> 64 word \<Rightarrow> MemoryPage option" where
  "get_page s va = page_table s (page_addr_of s va)"

definition is_in_cache :: "CXLMemoryManager \<Rightarrow> 64 word \<Rightarrow> MemoryTier \<Rightarrow> bool option" where
  "is_in_cache s va t =
     (if page_size s = 0 then None
      else Some (case page_table s (page_addr_of s va) of
                   Some page \<Rightarrow> tier_page page = t
                 | None \<Rightarrow> False))"

definition update_lru :: "64 word \<Rightarrow> CXLMemoryManager \<Rightarrow> CXLMemoryManager" where
  "update_lru va s = s\<lparr>l1_lru_list := removeAll va (l1_lru_list s) @ [va]\<rparr>"

definition update_access_tracking ::
  "64 word \<Rightarrow> 64 word \<Rightarrow> CXLMemoryManager \<Rightarrow> CXLMemoryManager option" where
  "update_access_tracking now va s =
     (if page_size s = 0 then None
      else Some
        (case get_page s va of
           None \<Rightarrow> s
         | Some page \<Rightarrow>
             (let page1 = page\<lparr>access_count_page := access_count_page page + 1,
                                last_access_time_page := now\<rparr>;
                  s1 = s\<lparr>page_table := (page_table s)(page_addr_of s va \<mapsto> page1)\<rparr>;
                  st = stats_mm s1;
                  s2 = s1\<lparr>stats_mm :=
                         (if tier_page page1 = L1_GPU_LOCAL
                          then st\<lparr>l1_hits := l1_hits st + 1\<rparr>
                          else if tier_page page1 = L2_PREFETCH
                          then st\<lparr>l2_hits := l2_hits st + 1\<rparr>
                          else st\<lparr>l3_accesses := l3_accesses st + 1\<rparr>)\<rparr>
              in update_lru va s2)))"

text \<open>
  A run of allocation requests \<open>(size, layer, preferred tier)\<close> and the bases it
  returns; \<open>allocate_all_body\<close> is the same run for a nonzero page size.
\<close>

fun allocate_all ::
  "(nat \<Rightarrow> 64 word) \<Rightarrow> (64 word \<times> 32 word \<times> MemoryTier) list \<Rightarrow> CXLMemoryManager
   \<Rightarrow> 64 word list option" where
  "allocate_all now [] s = Some []"
| "allocate_all now ((size_bytes, layer, preferred_tier) # reqs) s =
     (case allocate now size_bytes layer preferred_tier s of
        None \<Rightarrow> None
      | Some (va, s1) \<Rightarrow> map_option ((#) va) (allocate_all now reqs s1))"

fun allocate_all_body ::
  "(nat \<Rightarrow> 64 word) \<Rightarrow> (64 word \<times> 32 word \<times> MemoryTier) list \<Rightarrow> CXLMemoryManager
   \<Rightarrow> 64 word list" where
  "allocate_all_body now [] s = []"
| "allocate_all_body now ((size_bytes, layer, preferred_tier) # reqs) s =
     (let (va, s1) = allocate_body now size_bytes layer preferred_tier s
      in va # allocate_all_body now reqs s1)"


section \<open>Address translation unit (src/src/utils/address_translation.cpp)\<close>

text \<open>
  The TLB is a list of \<open>tlb_size\<close> entries, indexed by
  \<open>(virtual_page >> 12) % tlb_size\<close>; the constructor value-initialises the entries and
  clears \<open>valid\<close>.
\<close>

record TLBEntry =
  virtual_page :: "64 word"
  physical_page :: "64 word"
  valid :: bool

record TLBStatistics =
  hits :: "64 word"
  misses :: "64 word"

record AddressTranslationUnit =
  tlb :: "TLBEntry list"
  tlb_size :: "64 word"
  stats_tlb :: TLBStatistics

definition AddressTranslationUnit_new :: "64 word \<Rightarrow> AddressTranslationUnit" where
  "AddressTranslationUnit_new n =
     \<lparr> tlb = replicate (unat n) \<lparr> virtual_page = 0, physical_page = 0, valid = False \<rparr>,
       tlb_size = n,
       stats_tlb = \<lparr> hits = 0, misses = 0 \<rparr> \<rparr>"

definition page_walk :: "64 word \<Rightarrow> 64 word" where
  "page_walk va = 0x4000000000 + (va AND 0xFFFFFFFFFFFF)"

text \<open>The slot of a virtual page: \<open>(virtual_page >> 12) % tlb_size_\<close>.\<close>

definition tlb_index_of :: "AddressTranslationUnit \<Rightarrow> 64 word \<Rightarrow> nat" where
  "tlb_index_of s vpage = unat (drop_bit 12 vpage mod tlb_size s)"

text \<open>
  The modulus is undefined for a \<open>tlb_size_\<close> of zero: the outcome \<open>None\<close>.  A slot
  outside the list cannot occur in a unit made by the constructor and is \<open>None\<close> as
  well.
\<close>

definition translate ::
  "64 word \<Rightarrow> AddressTranslationUnit \<Rightarrow> (64 word \<times> AddressTranslationUnit) option" where
  "translate va s =
     (if tlb_size s = 0 \<or> length (tlb s) \<le> tlb_index_of s (va AND NOT 0xFFF)
      then None
      else Some
        (let vpage = va AND NOT 0xFFF;
             page_offset = va AND 0xFFF;
             tlb_index = tlb_index_of s vpage;
             entry = tlb s ! tlb_index
         in if valid entry \<and> virtual_page entry = vpage
            then (physical_page entry + page_offset,
                  s\<lparr>stats_tlb := (stats_tlb s)\<lparr>hits := hits (stats_tlb s) + 1\<rparr>\<rparr>)
            else
              (let s1 = s\<lparr>stats_tlb := (stats_tlb s)\<lparr>misses := misses (stats_tlb s) + 1\<rparr>\<rparr>;
                   ppage = page_walk va;
                   entry1 = entry\<lparr>virtual_page := vpage, physical_page := ppage AND NOT 0xFFF,
                              valid := True\<rparr>
               in (ppage + page_offset, s1\<lparr>tlb := (tlb s1)[tlb_index := entry1]\<rparr>))))"


section \<open>Speculative prefetcher (src/src/prefetcher/speculative_prefetcher.cpp)\<close>

text \<open>
  The part of the prefetcher that adapts the depth: \<open>adaptive_depth_\<close>, the accuracy
  history (doubles that are \<open>0.0\<close> or \<open>1.0\<close>, summed exactly) and the window size.
\<close>

record SpeculativePrefetcher =
  prefetch_depth :: nat
  adaptive_depth :: nat
  accuracy_history :: "real list"
  accuracy_window_size :: nat

definition SpeculativePrefetcher_new :: "nat \<Rightarrow> SpeculativePrefetcher" where
  "SpeculativePrefetcher_new depth =
     \<lparr> prefetch_depth = depth, adaptive_depth = depth, accuracy_history = [],
       accuracy_window_size = 100 \<rparr>"

text \<open>
  The first three statements of \<open>update_prediction_accuracy\<close>: append the observation,
  and erase the oldest one when the history is longer than the window.
\<close>

definition push_accuracy :: "real list \<Rightarrow> nat \<Rightarrow> real \<Rightarrow> real list" where
  "push_accuracy history window x =
     (let h1 = history @ [x] in if length h1 > window then tl h1 else h1)"

text \<open>The mean of the last ten observations (the loop from \<open>size - 10\<close>).\<close>

definition recent_accuracy_of :: "real list \<Rightarrow> real" where
  "recent_accuracy_of history = sum_list (drop (length history - 10) history) / 10"

definition update_prediction_accuracy ::
  "32 word \<Rightarrow> bool \<Rightarrow> SpeculativePrefetcher \<Rightarrow> SpeculativePrefetcher" where
  "update_prediction_accuracy request_id was_correct s =
     (let s1 = s\<lparr>accuracy_history :=
                 push_accuracy (accuracy_history s) (accuracy_window_size s)
                   (if was_correct then 1 else 0)\<rparr>
      in if length (accuracy_history s1) \<ge> 10
         then (let recent_accuracy = recent_accuracy_of (accuracy_history s1)
               in if recent_accuracy > 0.95 \<and> adaptive_depth s1 < 8
                  then s1\<lparr>adaptive_depth := adaptive_depth s1 + 1\<rparr>
                  else if recent_accuracy < 0.85 \<and> adaptive_depth s1 > 2
                  then s1\<lparr>adaptive_depth := adaptive_depth s1 - 1\<rparr>
                  else s1)
         else s1)"

text \<open>Feeding a list of observations, one call each.\<close>

definition feed :: "bool list \<Rightarrow> SpeculativePrefetcher \<Rightarrow> SpeculativePrefetcher" where
  "feed obs s = fold (update_prediction_accuracy 0) obs s"


text \<open>
  The prefetcher after \<open>n\<close> correct observations fed to a new prefetcher of depth 4.
\<close>

definition all_true_state :: "nat \<Rightarrow> SpeculativePrefetcher" where
  "all_true_state n =
     \<lparr> prefetch_depth = 4, adaptive_depth = (if n < 10 then 4 else min 8 (n - 5)),
       accuracy_history = replicate (min n 100) 1, accuracy_window_size = 100 \<rparr>"


section \<open>Run-length and delta coding\<close>

lemma run_length_decode_loop_acc:
  "run_length_decode_loop rle (d1 @ d2) = d1 @ run_length_decode_loop rle d2"
  by (induction rle d2 rule: run_length_decode_loop.induct) simp_all

lemma run_length_decode_loop_append:
  "even (length a) \<Longrightarrow>
   run_length_decode_loop (a @ b) decoded
   = run_length_decode_loop b (run_length_decode_loop a decoded)"
  by (induction a decoded rule: run_length_decode_loop.induct) simp_all

lemma count_byte: "count \<le> 255 \<Longrightarrow> unat (of_nat count :: uint8) = count"
  by (simp add: unat_of_nat take_bit_nat_eq_self)

lemma run_length_decode_loop_snoc_pair:
  assumes "even (length rle)" and "count \<le> 255"
  shows "run_length_decode_loop (rle @ [current_val, of_nat count]) []
         = run_length_decode_loop rle [] @ replicate count current_val"
  using assms
    run_length_decode_loop_acc
      [of "[current_val, of_nat count]" "run_length_decode_loop rle []" "[]"]
  by (simp add: run_length_decode_loop_append count_byte)

lemma run_length_encode_loop_decode:
  "1 \<le> count \<Longrightarrow> count \<le> 255 \<Longrightarrow> even (length rle) \<Longrightarrow>
   run_length_decode_loop (run_length_encode_loop xs current_val count rle) []
   = run_length_decode_loop rle [] @ replicate count current_val @ xs"
proof (induction xs arbitrary: current_val count rle)
  case Nil
  then show ?case
    by (simp add: run_length_decode_loop_snoc_pair)
next
  case (Cons x xs)
  show ?case
  proof (cases "x = current_val \<and> count < 255")
    case True
    then have "run_length_decode_loop (run_length_encode_loop (x # xs) current_val count rle) []
               = run_length_decode_loop rle [] @ replicate (count + 1) current_val @ xs"
      using Cons.IH [of "count + 1" rle current_val] Cons.prems by simp
    then show ?thesis using True by (simp add: replicate_app_Cons_same)
  next
    case False
    have ev: "even (length (rle @ [current_val, of_nat count]))"
      using Cons.prems by simp
    have "run_length_decode_loop (run_length_encode_loop (x # xs) current_val count rle) []
          = run_length_decode_loop (rle @ [current_val, of_nat count]) [] @ replicate 1 x @ xs"
      using False Cons.IH [of 1 "rle @ [current_val, of_nat count]" x] ev by auto
    then show ?thesis
      using Cons.prems by (simp add: run_length_decode_loop_snoc_pair)
  qed
qed

lemma run_length_decode_encode: "run_length_decode (run_length_encode s) = s"
proof (cases s)
  case Nil
  then show ?thesis by (simp add: run_length_decode_def)
next
  case (Cons x xs)
  then show ?thesis
    using run_length_encode_loop_decode [of 1 "[]" xs x]
    by (simp add: run_length_decode_def)
qed

lemma run_length_encode_loop_same:
  "n + count \<le> 255 \<Longrightarrow>
   run_length_encode_loop (replicate n v @ ys) v count rle
   = run_length_encode_loop ys v (n + count) rle"
  by (induction n arbitrary: count) simp_all

lemma delta_decode_loop_encode_loop: "delta_decode_loop p (delta_encode_loop p xs) = xs"
  by (induction xs arbitrary: p) simp_all

lemma delta_decode_encode: "delta_decode (delta_encode s) = s"
  by (cases s) (simp_all add: delta_decode_loop_encode_loop)

text \<open>
  C9.  For every sequence \<open>s\<close> of signed 8-bit values, decoding the run-length encoding
  of \<open>s\<close> gives back \<open>s\<close>, and the empty sequence encodes to the empty byte string.
  A run is flushed when its count has reached 255 (255 equal values give the single
  pair \<open>(v, 255)\<close>, 256 equal values the pairs \<open>(v, 255)\<close> and \<open>(v, 1)\<close>) and when
  the value changes (the input \<open>v, v, v + 1\<close> gives \<open>(v, 2)\<close> and \<open>(v + 1, 1)\<close>).
\<close>

theorem run_length_roundtrip:
  "run_length_decode (run_length_encode s) = s
   \<and> run_length_encode [] = []
   \<and> run_length_encode (replicate 255 v) = [v, 255]
   \<and> run_length_encode (replicate 256 v) = [v, 255, v, 1]
   \<and> run_length_encode [v, v, v + 1] = [v, 2, v + 1, 1]"
proof -
  have r255: "run_length_encode (replicate 255 v) = [v, 255]"
    using run_length_encode_loop_same [of 254 1 v "[]" "[]"]
    by (simp add: numeral_eq_Suc)
  have "replicate 256 v = v # replicate 254 v @ [v]"
    by (simp add: numeral_eq_Suc replicate_append_same)
  then have r256: "run_length_encode (replicate 256 v) = [v, 255, v, 1]"
    using run_length_encode_loop_same [of 254 1 v "[v]" "[]"] by simp
  show ?thesis
    using r255 r256 by (simp add: run_length_decode_encode)
qed


section \<open>Quantization and the compression round trip\<close>

text \<open>
  Every \<open>int8_t\<close> already lies in \<open>-128..127\<close>, so the clamp that \<open>quantize_to_int8\<close>
  applies after the narrowing cast never changes a value.
\<close>

lemma clamp_after_cast: "word_of_int (max (- 128) (min 127 (sint (q :: int8)))) = q"
proof -
  have "- 128 \<le> sint q" using sint_ge [of q] by simp
  moreover have "sint q \<le> 127" using sint_lt [of q] by simp
  ultimately show ?thesis by simp
qed

lemma quantize_to_int8_is_cast:
  "quantize_to_int8 oor data scale
   = map (\<lambda>x. static_cast_int8 oor (cround (x / scale * 127))) data"
  by (simp add: quantize_to_int8_def Let_def clamp_after_cast)

lemma decompress_compress:
  "decompress (compress oor x n h l) n h
   = dequantize_from_int8 (quantize_to_int8 oor x (compute_scale_factor x))
       (compute_scale_factor x)"
  by (simp add: decompress_def compress_def Let_def run_length_decode_encode
      delta_decode_encode)

lemma decompress_compress_length:
  "length (decompress (compress oor x n h l) n h) = length x"
  by (simp add: decompress_compress dequantize_from_int8_def quantize_to_int8_def)

text \<open>
  C7.  On the input \<open>[2.0, 127.0]\<close> stage 1 gives the scale \<open>1.0\<close>, and the rounded
  scaled values are \<open>254\<close> and \<open>16129\<close>.  The specified quantizer saturates both at
  \<open>127\<close>.  \<open>quantize_to_int8\<close> narrows to \<open>int8_t\<close> before it clamps; with the
  truncating conversion the bytes are \<open>-2\<close> and \<open>1\<close>: the values wrap around.
\<close>

theorem quantize_to_int8_wraps:
  "compute_scale_factor [2, 127] = 1
   \<and> quantize_to_int8 truncating_cast [2, 127] (compute_scale_factor [2, 127]) = [- 2, 1]
   \<and> quantize_spec [2, 127] (compute_scale_factor [2, 127]) = [127, 127]"
proof -
  have sc: "compute_scale_factor [2, 127] = 1"
    by (simp add: compute_scale_factor_def)
  have "quantize_to_int8 truncating_cast [2, 127] 1 = [- 2, 1]"
    by (simp add: quantize_to_int8_is_cast static_cast_int8_def truncating_cast_def
        cround_def)
  moreover have "quantize_spec [2, 127] 1 = [127, 127]"
    by (simp add: quantize_spec_def cround_def)
  ultimately show ?thesis by (simp add: sc)
qed

text \<open>
  C1.  The round trip keeps the length of every input.  The error bound fails: on the
  one-element input \<open>[127.0]\<close> the scale is \<open>1.0\<close>, the quantizer hands \<open>16129\<close> to
  the narrowing cast, and whatever byte \<open>q\<close> the cast produces, the result
  \<open>q / 127\<close> is at most \<open>1\<close>; it differs from \<open>127.0\<close> by more than
  \<open>max|x| / 127 = 1\<close>.
\<close>

theorem compress_roundtrip_error:
  "length (decompress (compress oor x n h l) n h) = length x
   \<and> compute_scale_factor [127] = 1
   \<and> \<bar>decompress (compress oor [127] 1 1 0) 1 1 ! 0 - 127\<bar> > 127 / 127"
proof -
  have sc: "compute_scale_factor [127] = 1"
    by (simp add: compute_scale_factor_def)
  define q where "q = static_cast_int8 oor (cround (127 / 1 * 127))"
  have d: "decompress (compress oor [127] 1 1 0) 1 1 = [real_of_int (sint q) / 127]"
    by (simp add: decompress_compress sc quantize_to_int8_is_cast
        dequantize_from_int8_def q_def)
  have "sint q \<le> 127" using sint_lt [of q] by simp
  then have "real_of_int (sint q) \<le> real_of_int 127" by (simp only: of_int_le_iff)
  then have "(signed q :: real) \<le> 127" by simp
  then have "\<bar>decompress (compress oor [127] 1 1 0) 1 1 ! 0 - 127\<bar> > 127 / 127"
    unfolding d by simp
  then show ?thesis
    using sc by (simp only: decompress_compress_length simp_thms)
qed


section \<open>Coherence manager: a failing transport\<close>

lemma set_update_subset: "set (AList.update k v al) \<subseteq> insert (k, v) (set al)"
  by (induction al) auto

lemma send_no_driver: "\<not> driver s \<Longrightarrow> send_coherence_op_to_fpga op a s = (False, s)"
  by (simp add: send_coherence_op_to_fpga_def)

lemma send_driver: "driver s \<Longrightarrow> fst (send_coherence_op_to_fpga op a s)"
  by (simp add: send_coherence_op_to_fpga_def wait_for_fpga_completion_def Let_def)

lemma send_keeps_driver: "driver (snd (send_coherence_op_to_fpga op a s)) = driver s"
  by (simp add: send_coherence_op_to_fpga_def Let_def)

lemma put_entry_driver: "driver (put_entry a e s) = driver s"
  by (simp add: put_entry_def)

lemma get_or_create_driver: "driver (snd (get_or_create_entry a s)) = driver s"
  by (simp add: get_or_create_entry_def put_entry_def Let_def split: option.splits)

lemma entry_invalid:
  "all_invalid s \<Longrightarrow> get_entry s a = Some e \<Longrightarrow> state e = INVALID"
  by (auto simp: all_invalid_def get_entry_def dest!: map_of_SomeD)

lemma put_entry_invalid:
  "all_invalid s \<Longrightarrow> state e = INVALID \<Longrightarrow> all_invalid (put_entry a e s)"
  using set_update_subset [of a e "directory s"]
  by (auto simp: all_invalid_def put_entry_def)

lemma get_or_create_invalid:
  "all_invalid s \<Longrightarrow> all_invalid (snd (get_or_create_entry a s)) \<and> state (fst (get_or_create_entry a s)) = INVALID"
  by (auto simp: get_or_create_entry_def Let_def DirectoryEntry_new_def  entry_invalid
       intro!: put_entry_invalid split: option.splits)

lemma all_invalid_stats [simp]: "all_invalid (s\<lparr>stats := st\<rparr>) = all_invalid s"
  by (simp add: all_invalid_def)

lemma get_entry_stats [simp]: "get_entry (s\<lparr>stats := st\<rparr>) a = get_entry s a"
  by (simp add: get_entry_def)

lemma align_stats [simp]: "align_to_cache_line (s\<lparr>stats := st\<rparr>) a = align_to_cache_line s a"
  by (simp add: align_to_cache_line_def)

lemma stats_put_entry: "stats (put_entry a e s) = stats s"
  by (simp add: put_entry_def)

lemma request_read_no_driver:
  assumes "\<not> driver s" "all_invalid s"
  shows "request_read now addr s = (False, s\<lparr>stats := update_statistics READ False (stats s)\<rparr>)"
proof -
  have m: "request_read_miss now a s = (False, s\<lparr>stats := update_statistics READ False (stats s)\<rparr>)" for a
    using assms by (simp add: request_read_miss_def send_no_driver)
  show ?thesis
    using entry_invalid [OF assms(2)]
    by (auto simp: request_read_def m Let_def split: option.splits)
qed

lemma request_write_no_driver:
  assumes "\<not> driver s" "all_invalid s"
  shows "request_write now addr s
    = (False, s\<lparr>stats := update_statistics WRITE (get_entry s (align_to_cache_line s addr) \<noteq> None) (stats s)\<rparr>)"
proof (cases "get_entry s (align_to_cache_line s addr)")
  case None
  then show ?thesis using assms by (simp add: request_write_def send_no_driver)
next
  case (Some e)
  then have "state e = INVALID" using entry_invalid [OF assms(2)] by simp
  then show ?thesis using assms Some by (simp add: request_write_def send_no_driver)
qed

lemma invalidate_no_driver:
  assumes "\<not> driver s" "all_invalid s" "get_entry s (align_to_cache_line s addr) = Some e"
  shows "invalidate addr s
    = (False, (put_entry (align_to_cache_line s addr) e s)\<lparr>stats := (stats s)\<lparr>invalidations_sent := invalidations_sent (stats s) + 1\<rparr>\<rparr>)"
proof -
  have i: "state e = INVALID" using entry_invalid [OF assms(2,3)] .
  then have eq: "e\<lparr>state := INVALID\<rparr> = e" by simp
  show ?thesis using assms(1,3)
    by (simp add: invalidate_def send_no_driver put_entry_driver i eq Let_def stats_put_entry)
qed

lemma writeback_no_driver:
  assumes "\<not> driver s" "all_invalid s"
  shows "writeback addr s = (True, s)"
  using entry_invalid [OF assms(2)]
  by (auto simp: writeback_def Let_def split: option.splits)

lemma flush_fold_no_modified:
  "all_invalid s \<Longrightarrow> fold flush_step as (s, n) = (s, n)"
  by (induction as) (auto simp: flush_step_def dest: entry_invalid split: option.splits)

lemma flush_all_no_driver:
  "all_invalid s \<Longrightarrow> flush_all s = (True, s\<lparr>stats := (stats s)\<lparr>writebacks_performed :=
                    writebacks_performed (stats s) + 0\<rparr>\<rparr>)"
  by (simp add: flush_all_def flush_fold_no_modified)

lemma promote_no_driver:
  assumes "\<not> driver s" "all_invalid s"
  shows "\<not> driver (snd (promote_to_l1_coh addr s)) \<and> all_invalid (snd (promote_to_l1_coh addr s))"
  using assms get_or_create_invalid [OF assms(2), of "align_to_cache_line s addr"]
    get_or_create_driver [of "align_to_cache_line s addr" s]
  by (auto simp: promote_to_l1_coh_def Let_def send_no_driver split: prod.splits)

lemma demote_no_driver:
  assumes "\<not> driver s" "all_invalid s"
  shows "\<not> driver (snd (demote_to_l3_coh addr s)) \<and> all_invalid (snd (demote_to_l3_coh addr s))"
proof (cases "get_entry s (align_to_cache_line s addr)")
  case None
  then show ?thesis using assms by (simp add: demote_to_l3_coh_def)
next
  case (Some e)
  then have i: "state e = INVALID" using entry_invalid [OF assms(2)] by simp
  show ?thesis using assms Some i
    by (simp add: demote_to_l3_coh_def put_entry_driver put_entry_invalid Let_def)
qed

lemma update_tier_no_driver:
  assumes "\<not> driver s" "all_invalid s"
  shows "\<not> driver (update_tier addr t s) \<and> all_invalid (update_tier addr t s)"
  using assms get_or_create_invalid [OF assms(2), of "align_to_cache_line s addr"]
    get_or_create_driver [of "align_to_cache_line s addr" s]
  by (auto simp: update_tier_def Let_def put_entry_driver put_entry_invalid split: prod.splits)

lemma batch_invalidate_fold_no_driver:
  "\<not> driver s \<Longrightarrow> all_invalid s \<Longrightarrow>
   \<not> driver (fst (fold batch_invalidate_step as (s, b))) \<and> all_invalid (fst (fold batch_invalidate_step as (s, b)))"
proof (induction as arbitrary: s b)
  case Nil
  then show ?case by simp
next
  case (Cons a as)
  obtain s' b' where st: "batch_invalidate_step a (s, b) = (s', b')" by (cases "batch_invalidate_step a (s, b)")
  have "\<not> driver s' \<and> all_invalid s'"
  proof (cases "get_entry s (align_to_cache_line s a)")
    case None
    then show ?thesis using st Cons.prems by (simp add: batch_invalidate_step_def)
  next
    case (Some e)
    then show ?thesis using st Cons.prems
      by (auto simp: batch_invalidate_step_def Let_def send_no_driver put_entry_driver put_entry_invalid)
  qed
  then show ?case using Cons.IH [of s' b'] st by simp
qed

lemma batch_writeback_fold_no_driver:
  "all_invalid s \<Longrightarrow> fst (fold batch_writeback_step as (s, b)) = s"
proof (induction as arbitrary: b)
  case Nil
  then show ?case by simp
next
  case (Cons a as)
  have "batch_writeback_step a (s, b) = (s, b)"
    using Cons.prems
    by (auto simp: batch_writeback_step_def Let_def dest: entry_invalid split: option.splits)
  then show ?case using Cons by simp
qed

lemma call_no_driver:
  assumes "\<not> driver s" "all_invalid s"
  shows "\<not> driver (call c s) \<and> all_invalid (call c s)"
proof (cases c)
  case (Request_read now addr)
  then show ?thesis using assms by (simp add: request_read_no_driver)
next
  case (Request_write now addr)
  then show ?thesis using assms by (simp add: request_write_no_driver)
next
  case (Invalidate addr)
  show ?thesis
  proof (cases "get_entry s (align_to_cache_line s addr)")
    case None
    then show ?thesis using assms Invalidate by (simp add: invalidate_def)
  next
    case (Some e)
    then show ?thesis using assms Invalidate entry_invalid [OF assms(2) Some]
      by (simp add: invalidate_no_driver put_entry_driver put_entry_invalid)
  qed
next
  case (Writeback addr)
  then show ?thesis using assms by (simp add: writeback_no_driver)
next
  case Flush_all
  then show ?thesis using assms by (simp add: flush_all_no_driver)
next
  case (Promote_to_l1 addr)
  then show ?thesis using promote_no_driver [OF assms] by simp
next
  case (Demote_to_l3 addr)
  then show ?thesis using demote_no_driver [OF assms] by simp
next
  case (Update_tier addr t)
  then show ?thesis using update_tier_no_driver [OF assms] by simp
next
  case (Batch_invalidate addrs)
  then show ?thesis using batch_invalidate_fold_no_driver [OF assms, of addrs True]
    by (auto simp: batch_invalidate_def split: prod.splits)
next
  case (Batch_writeback data)
  then show ?thesis using batch_writeback_fold_no_driver [OF assms(2), of data True] assms
    by (auto simp: batch_writeback_def split: prod.splits)
next
  case Reset_statistics
  then show ?thesis using assms by (simp add: reset_statistics_def)
qed

lemma run_calls_no_driver:
  "\<not> driver s \<Longrightarrow> all_invalid s \<Longrightarrow>
   \<not> driver (run_calls calls s) \<and> all_invalid (run_calls calls s)"
  unfolding run_calls_def
  by (induction calls arbitrary: s) (simp_all add: call_no_driver)

lemma driver_stats [simp]: "driver (s\<lparr>stats := st\<rparr>) = driver s"
  by simp

lemma get_or_create_driver': "get_or_create_entry a s = (e, s') \<Longrightarrow> driver s' = driver s"
  using get_or_create_driver [of a s] by simp

lemma send_keeps_driver': "send_coherence_op_to_fpga op a s = (ok, s') \<Longrightarrow> driver s' = driver s"
  using send_keeps_driver [of op a s] by simp

lemma request_read_driver: "driver (snd (request_read now addr s)) = driver s"
  by (auto simp: request_read_def request_read_miss_def Let_def put_entry_driver
      dest!: send_keeps_driver' get_or_create_driver' split: option.splits prod.splits)

lemma request_write_driver: "driver (snd (request_write now addr s)) = driver s"
  by (auto simp: request_write_def Let_def put_entry_driver
      dest!: send_keeps_driver' get_or_create_driver' split: option.splits prod.splits)

lemma invalidate_driver: "driver (snd (invalidate addr s)) = driver s"
  by (auto simp: invalidate_def Let_def put_entry_driver
      dest!: send_keeps_driver' split: option.splits prod.splits)

lemma writeback_driver: "driver (snd (writeback addr s)) = driver s"
  by (auto simp: writeback_def Let_def put_entry_driver
      dest!: send_keeps_driver' split: option.splits prod.splits)

lemma flush_step_driver: "driver (fst (flush_step a (s, n))) = driver s"
  by (auto simp: flush_step_def Let_def put_entry_driver
      dest!: send_keeps_driver' split: option.splits prod.splits)

lemma flush_fold_driver: "driver (fst (fold flush_step as (s, n))) = driver s"
proof (induction as arbitrary: s n)
  case Nil
  then show ?case by simp
next
  case (Cons a as)
  obtain s' n' where st: "flush_step a (s, n) = (s', n')" by (cases "flush_step a (s, n)")
  then have "driver s' = driver s" using flush_step_driver [of a s n] by simp
  then show ?case using Cons.IH [of s' n'] st by simp
qed

lemma flush_all_driver: "driver (snd (flush_all s)) = driver s"
  using flush_fold_driver [of "map fst (directory s)" s 0]
  by (auto simp: flush_all_def split: prod.splits)

lemma promote_driver: "driver (snd (promote_to_l1_coh addr s)) = driver s"
  by (auto simp: promote_to_l1_coh_def Let_def put_entry_driver
      dest!: send_keeps_driver' get_or_create_driver' split: option.splits prod.splits)

lemma demote_driver: "driver (snd (demote_to_l3_coh addr s)) = driver s"
  by (auto simp: demote_to_l3_coh_def Let_def put_entry_driver
      dest!: send_keeps_driver' split: option.splits prod.splits if_splits)

lemma update_tier_driver: "driver (update_tier addr t s) = driver s"
  by (auto simp: update_tier_def Let_def put_entry_driver
      dest!: get_or_create_driver' split: prod.splits)

lemma batch_invalidate_step_driver: "driver (fst (batch_invalidate_step a (s, b))) = driver s"
  by (auto simp: batch_invalidate_step_def Let_def put_entry_driver
      dest!: send_keeps_driver' split: option.splits prod.splits)

lemma batch_invalidate_fold_driver: "driver (fst (fold batch_invalidate_step as (s, b))) = driver s"
proof (induction as arbitrary: s b)
  case Nil
  then show ?case by simp
next
  case (Cons a as)
  obtain s' b' where st: "batch_invalidate_step a (s, b) = (s', b')"
    by (cases "batch_invalidate_step a (s, b)")
  then have "driver s' = driver s" using batch_invalidate_step_driver [of a s b] by simp
  then show ?case using Cons.IH [of s' b'] st by simp
qed

lemma batch_writeback_step_driver: "driver (fst (batch_writeback_step a (s, b))) = driver s"
  by (auto simp: batch_writeback_step_def Let_def put_entry_driver
      dest!: send_keeps_driver' split: option.splits prod.splits)

lemma batch_writeback_fold_driver: "driver (fst (fold batch_writeback_step as (s, b))) = driver s"
proof (induction as arbitrary: s b)
  case Nil
  then show ?case by simp
next
  case (Cons a as)
  obtain s' b' where st: "batch_writeback_step a (s, b) = (s', b')"
    by (cases "batch_writeback_step a (s, b)")
  then have "driver s' = driver s" using batch_writeback_step_driver [of a s b] by simp
  then show ?case using Cons.IH [of s' b'] st by simp
qed

lemma call_driver: "driver (call c s) = driver s"
proof (cases c)
  case (Batch_invalidate addrs)
  then show ?thesis using batch_invalidate_fold_driver [of addrs s True]
    by (auto simp: batch_invalidate_def split: prod.splits)
next
  case (Batch_writeback data)
  then show ?thesis using batch_writeback_fold_driver [of data s True]
    by (auto simp: batch_writeback_def split: prod.splits)
qed (simp_all add: request_read_driver request_write_driver invalidate_driver
    writeback_driver flush_all_driver promote_driver demote_driver update_tier_driver
    reset_statistics_def)

lemma run_calls_driver: "driver (run_calls calls s) = driver s"
  unfolding run_calls_def
  by (induction calls arbitrary: s) (simp_all add: call_driver)

lemma get_entry_put_entry: "get_entry (put_entry a e s) a = Some e"
  by (simp add: get_entry_def put_entry_def update_conv')

lemma cache_line_size_put_entry: "cache_line_size (put_entry a e s) = cache_line_size s"
  by (simp add: put_entry_def)

text \<open>
  The transport call fails exactly for a manager without a driver.  At every such
  state, reachable or not, \<open>request_read\<close>, \<open>request_write\<close> and \<open>writeback\<close> change
  the directory only under \<open>if (success)\<close>: on a failing transport they return false
  and leave the directory as it was.
\<close>

lemma transport_fails_no_driver: "transport_fails op addr s \<Longrightarrow> \<not> driver s"
  using send_driver [of s op "align_to_cache_line s addr"]
  by (auto simp: transport_fails_def)

lemma request_read_transport_fails:
  assumes "transport_fails READ addr s"
  shows "request_read now addr s = (False, s\<lparr>stats := update_statistics READ False (stats s)\<rparr>)"
proof -
  have nd: "\<not> driver s" using assms by (rule transport_fails_no_driver)
  have m: "request_read_miss now a s = (False, s\<lparr>stats := update_statistics READ False (stats s)\<rparr>)" for a
    using nd by (simp add: request_read_miss_def send_no_driver)
  show ?thesis
    using assms by (auto simp: transport_fails_def request_read_def m Let_def split: option.splits)
qed

lemma request_write_transport_fails:
  assumes "transport_fails WRITE addr s"
  shows "\<not> fst (request_write now addr s)
    \<and> directory (snd (request_write now addr s)) = directory s
    \<and> cache_line_size (snd (request_write now addr s)) = cache_line_size s"
proof -
  have nd: "\<not> driver s" using assms by (rule transport_fails_no_driver)
  show ?thesis
    using nd by (auto simp: request_write_def send_no_driver Let_def split: option.splits)
qed

lemma writeback_transport_fails:
  assumes "transport_fails WRITEBACK addr s"
  shows "writeback addr s = (False, s)"
proof -
  have nd: "\<not> driver s" using assms by (rule transport_fails_no_driver)
  show ?thesis
    using assms nd
    by (auto simp: transport_fails_def writeback_def send_no_driver Let_def split: option.splits)
qed

lemma guarded_operations_keep_directory:
  assumes "transport_fails op addr s" and "op = READ \<or> op = WRITE \<or> op = WRITEBACK"
  shows "\<not> fst (coherence_op op now addr s)
    \<and> directory (snd (coherence_op op now addr s)) = directory s
    \<and> get_state (snd (coherence_op op now addr s)) a = get_state s a
    \<and> get_tier (snd (coherence_op op now addr s)) a = get_tier s a"
proof -
  have "\<not> fst (coherence_op op now addr s)
    \<and> directory (snd (coherence_op op now addr s)) = directory s
    \<and> cache_line_size (snd (coherence_op op now addr s)) = cache_line_size s"
    using assms request_write_transport_fails [of addr s now]
    by (auto simp: request_read_transport_fails writeback_transport_fails)
  then show ?thesis
    by (simp add: get_state_def get_tier_def get_entry_def align_to_cache_line_def)
qed

text \<open>
  \<open>invalidate\<close> assigns \<open>entry->state = INVALID\<close> before its transport call and has no
  \<open>if (success)\<close>: on a failing transport it returns false with the entry marked
  \<open>INVALID\<close>, whatever its state was.  Only the tier is kept.
\<close>

lemma invalidate_transport_fails:
  assumes "transport_fails INVALIDATE addr s"
  shows "\<not> fst (invalidate addr s)
    \<and> get_state (snd (invalidate addr s)) addr = INVALID
    \<and> get_tier (snd (invalidate addr s)) addr = get_tier s addr"
proof -
  have nd: "\<not> driver s" using assms by (rule transport_fails_no_driver)
  obtain e where e: "get_entry s (align_to_cache_line s addr) = Some e"
    using assms by (auto simp: transport_fails_def)
  show ?thesis
  proof (cases "state e = MODIFIED")
    case True
    then show ?thesis using nd e
      by (simp add: invalidate_def send_no_driver put_entry_driver Let_def get_state_def
          get_tier_def align_to_cache_line_def get_entry_def put_entry_def update_conv')
  next
    case False
    then show ?thesis using nd e
      by (simp add: invalidate_def send_no_driver put_entry_driver Let_def get_state_def
          get_tier_def align_to_cache_line_def get_entry_def put_entry_def update_conv')
  qed
qed

text \<open>
  With the transport as it is in this repository (\<open>wait_for_fpga_completion\<close> returns
  true, \<open>driver_\<close> is never assigned again), a manager built by the constructor and
  driven by its public operations meets a failing transport only without a driver, and
  then none of its entries has left \<open>INVALID\<close>.
\<close>

lemma reachable_transport_failure_all_invalid:
  assumes "transport_fails op addr (run_calls calls (CoherenceManager_new drv cls))"
  shows "\<not> drv \<and> all_invalid (run_calls calls (CoherenceManager_new drv cls))"
proof -
  have "\<not> driver (run_calls calls (CoherenceManager_new drv cls))"
    using assms by (rule transport_fails_no_driver)
  then have nd: "\<not> drv" by (simp add: run_calls_driver CoherenceManager_new_def)
  then have "\<not> driver (CoherenceManager_new drv cls)" "all_invalid (CoherenceManager_new drv cls)"
    by (simp_all add: CoherenceManager_new_def all_invalid_def)
  then show ?thesis
    using run_calls_no_driver [of "CoherenceManager_new drv cls" calls] nd by simp
qed



section \<open>Coherence manager: the MESI cycle\<close>

lemmas cm_defs = request_read_def request_read_miss_def request_write_def invalidate_def
  writeback_def get_entry_def put_entry_def get_or_create_entry_def
  send_coherence_op_to_fpga_def wait_for_fpga_completion_def align_to_cache_line_def
  CoherenceManager_new_def Statistics_zero_def DirectoryEntry_new_def

lemma mesi_read_step:
  "request_read t1 A (CoherenceManager_new True cls) =
   (True, \<lparr> driver = True, cache_line_size = cls,
     directory = [(A AND NOT (cls - 1),
       \<lparr> cache_line_addr = A AND NOT (cls - 1), state = SHARED, tier = L1_GPU,
         last_access_time = t1, access_count = 1, pending_operation = False \<rparr>)],
     stats = \<lparr> total_reads = 2, total_writes = 0, coherence_ops = 0, invalidations_sent = 0,
       writebacks_performed = 0, directory_hits = 1, directory_misses = 1 \<rparr>,
     pending_ops = 0 \<rparr>)"
  by (simp add: cm_defs Let_def)

lemma mesi_write_step:
  "request_write t2 A \<lparr> driver = True, cache_line_size = cls,
     directory = [(A AND NOT (cls - 1),
       \<lparr> cache_line_addr = A AND NOT (cls - 1), state = SHARED, tier = L1_GPU,
         last_access_time = t1, access_count = 1, pending_operation = False \<rparr>)],
     stats = \<lparr> total_reads = 2, total_writes = 0, coherence_ops = 0, invalidations_sent = 0,
       writebacks_performed = 0, directory_hits = 1, directory_misses = 1 \<rparr>,
     pending_ops = 0 \<rparr> =
   (True, \<lparr> driver = True, cache_line_size = cls,
     directory = [(A AND NOT (cls - 1),
       \<lparr> cache_line_addr = A AND NOT (cls - 1), state = MODIFIED, tier = L1_GPU,
         last_access_time = t2, access_count = 2, pending_operation = False \<rparr>)],
     stats = \<lparr> total_reads = 2, total_writes = 2, coherence_ops = 1, invalidations_sent = 1,
       writebacks_performed = 0, directory_hits = 3, directory_misses = 1 \<rparr>,
     pending_ops = 0 \<rparr>)"
  by (simp add: cm_defs Let_def)

lemma mesi_writeback_step:
  "writeback A \<lparr> driver = True, cache_line_size = cls,
     directory = [(A AND NOT (cls - 1),
       \<lparr> cache_line_addr = A AND NOT (cls - 1), state = MODIFIED, tier = L1_GPU,
         last_access_time = t2, access_count = 2, pending_operation = False \<rparr>)],
     stats = \<lparr> total_reads = 2, total_writes = 2, coherence_ops = 1, invalidations_sent = 1,
       writebacks_performed = 0, directory_hits = 3, directory_misses = 1 \<rparr>,
     pending_ops = 0 \<rparr> =
   (True, \<lparr> driver = True, cache_line_size = cls,
     directory = [(A AND NOT (cls - 1),
       \<lparr> cache_line_addr = A AND NOT (cls - 1), state = SHARED, tier = L3_CXL,
         last_access_time = t2, access_count = 2, pending_operation = False \<rparr>)],
     stats = \<lparr> total_reads = 2, total_writes = 2, coherence_ops = 2, invalidations_sent = 1,
       writebacks_performed = 1, directory_hits = 3, directory_misses = 1 \<rparr>,
     pending_ops = 0 \<rparr>)"
  by (simp add: cm_defs Let_def)

lemma mesi_invalidate_step:
  "invalidate A \<lparr> driver = True, cache_line_size = cls,
     directory = [(A AND NOT (cls - 1),
       \<lparr> cache_line_addr = A AND NOT (cls - 1), state = SHARED, tier = L3_CXL,
         last_access_time = t2, access_count = 2, pending_operation = False \<rparr>)],
     stats = \<lparr> total_reads = 2, total_writes = 2, coherence_ops = 2, invalidations_sent = 1,
       writebacks_performed = 1, directory_hits = 3, directory_misses = 1 \<rparr>,
     pending_ops = 0 \<rparr> =
   (True, \<lparr> driver = True, cache_line_size = cls,
     directory = [(A AND NOT (cls - 1),
       \<lparr> cache_line_addr = A AND NOT (cls - 1), state = INVALID, tier = L3_CXL,
         last_access_time = t2, access_count = 2, pending_operation = False \<rparr>)],
     stats = \<lparr> total_reads = 2, total_writes = 2, coherence_ops = 3, invalidations_sent = 2,
       writebacks_performed = 1, directory_hits = 3, directory_misses = 1 \<rparr>,
     pending_ops = 0 \<rparr>)"
  by (simp add: cm_defs Let_def)

lemma get_state_single:
  "get_state \<lparr> driver = d, cache_line_size = cls,
     directory = [(A AND NOT (cls - 1), e)], stats = st, pending_ops = p \<rparr> A = state e"
  by (simp add: get_state_def get_entry_def align_to_cache_line_def)

lemmas mesi_steps = mesi_read_step mesi_write_step mesi_writeback_step mesi_invalidate_step

text \<open>
  C2 as amended.  On a freshly constructed manager with a driver, for every address
  \<open>A\<close> (and every cache-line size and clock reading), the sequence read, write,
  writeback, invalidate on \<open>A\<close> leaves the directory state of \<open>A\<close> at \<open>SHARED\<close>,
  \<open>MODIFIED\<close>, \<open>SHARED\<close>, \<open>INVALID\<close> after the respective step, and afterwards
  \<open>writebacks_performed = 1\<close> and \<open>invalidations_sent = 2\<close>: the write to the
  \<open>SHARED\<close> line counts one invalidation, the invalidate the other.
\<close>

theorem mesi_cycle_states_and_counters:
  "(let s0 = CoherenceManager_new True cls;
        s1 = snd (request_read t1 A s0);
        s2 = snd (request_write t2 A s1);
        s3 = snd (writeback A s2);
        s4 = snd (invalidate A s3)
    in get_state s1 A = SHARED \<and> get_state s2 A = MODIFIED
       \<and> get_state s3 A = SHARED \<and> get_state s4 A = INVALID
       \<and> writebacks_performed (stats s4) = 1
       \<and> invalidations_sent (stats s4) = 2)"
  unfolding Let_def
  by (simp only: mesi_steps snd_conv get_state_single) simp

text \<open>
  C2 as stated fails on the line \<open>0x10000\<close> of a fresh manager with 64-byte lines:
  the counters read \<open>total_reads = 2\<close>, \<open>total_writes = 2\<close>,
  \<open>writebacks_performed = 1\<close>, \<open>invalidations_sent = 2\<close>.
\<close>

theorem mesi_cycle_counters_counterexample:
  "(let s0 = CoherenceManager_new True 64;
        s1 = snd (request_read 0 0x10000 s0);
        s2 = snd (request_write 0 0x10000 s1);
        s3 = snd (writeback 0x10000 s2);
        s4 = snd (invalidate 0x10000 s3)
    in total_reads (stats s4) = 2 \<and> total_writes (stats s4) = 2
       \<and> writebacks_performed (stats s4) = 1 \<and> invalidations_sent (stats s4) = 2
       \<and> \<not> (total_reads (stats s4) = 1 \<and> total_writes (stats s4) = 1
       \<and> writebacks_performed (stats s4) = 1 \<and> invalidations_sent (stats s4) = 1))"
  unfolding Let_def
  by (simp only: mesi_steps snd_conv) simp


section \<open>Address translation: miss and hit\<close>

lemma atu_new_tlb: "AddressTranslationUnit_new 1024 =
   \<lparr> tlb = replicate 1024 \<lparr> virtual_page = 0, physical_page = 0, valid = False \<rparr>,
       tlb_size = 1024, stats_tlb = \<lparr> hits = 0, misses = 0 \<rparr> \<rparr>"
  by (simp add: AddressTranslationUnit_new_def)

lemma translate_miss_example:
  "translate 0x1001 (AddressTranslationUnit_new 1024) =
   Some (0x4000001002,
    \<lparr> tlb = (replicate 1024 \<lparr> virtual_page = 0, physical_page = 0, valid = False \<rparr>)
             [1 := \<lparr> virtual_page = 0x1000, physical_page = 0x4000001000, valid = True \<rparr>],
       tlb_size = 1024, stats_tlb = \<lparr> hits = 0, misses = 1 \<rparr> \<rparr>)"
  by (simp add: atu_new_tlb translate_def tlb_index_of_def page_walk_def Let_def)

lemma translate_hit_example:
  "translate 0x1001 \<lparr> tlb = (replicate 1024 \<lparr> virtual_page = 0, physical_page = 0, valid = False \<rparr>)
             [1 := \<lparr> virtual_page = 0x1000, physical_page = 0x4000001000, valid = True \<rparr>],
       tlb_size = 1024, stats_tlb = \<lparr> hits = 0, misses = 1 \<rparr> \<rparr> =
   Some (0x4000001001,
    \<lparr> tlb = (replicate 1024 \<lparr> virtual_page = 0, physical_page = 0, valid = False \<rparr>)
             [1 := \<lparr> virtual_page = 0x1000, physical_page = 0x4000001000, valid = True \<rparr>],
       tlb_size = 1024, stats_tlb = \<lparr> hits = 1, misses = 1 \<rparr> \<rparr>)"
  by (simp add: translate_def tlb_index_of_def Let_def)

text \<open>
  C8.  On a fresh unit with 1024 entries, \<open>translate(0x1001)\<close> misses and returns
  \<open>0x4000001002\<close>: \<open>page_walk\<close> is given the whole address, so its result already
  holds the offset \<open>1\<close>, and the miss path adds the offset again.  The call that follows
  hits the installed entry and returns the installed page \<open>0x4000001000\<close> plus the
  offset, \<open>0x4000001001\<close>.  The two values differ.
\<close>

theorem translate_miss_differs_from_hit:
  "(case translate 0x1001 (AddressTranslationUnit_new 1024) of
      None \<Rightarrow> False
    | Some (pa1, s1) \<Rightarrow>
        (case translate 0x1001 s1 of
           None \<Rightarrow> False
         | Some (pa2, s2) \<Rightarrow>
             pa1 = 0x4000001002 \<and> pa2 = 0x4000001001 \<and> pa1 \<noteq> pa2
             \<and> physical_page (tlb s1 ! 1) = 0x4000001000
             \<and> hits (stats_tlb s2) = 1 \<and> misses (stats_tlb s2) = 1))"
  unfolding translate_miss_example option.case prod.case translate_hit_example
  by simp


section \<open>Allocator: concrete runs\<close>

lemma alloc_8192:
  "allocate (\<lambda>_. 0) 8192 0 L3_CXL_POOL (CXLMemoryManager_new 12 3 128 4096) =
   Some (0x100000000,
    (CXLMemoryManager_new 12 3 128 4096)
      \<lparr> page_table := [0x100000000 \<mapsto> new_page (\<lambda>_. 0) 0x100000000 0x20000000000 4096 L3_CXL_POOL 0 0,
                        0x100001000 \<mapsto> new_page (\<lambda>_. 0) 0x100000000 0x20000000000 4096 L3_CXL_POOL 0 1],
        l3_pages := [0x100000000],
        next_virtual_addr := 0x100002000,
        next_physical_addr_l3 := 0x20000002000 \<rparr>)"
  by (simp add: allocate_def allocate_body_def CXLMemoryManager_new_def num_pages_def
      required_bytes_def actual_tier_def create_pages_def Let_def upt_rec)

lemma deallocate_unknown_base: "page_table s va = None \<Longrightarrow> deallocate va s = s"
  by (simp add: deallocate_def)

text \<open>
  C3.  \<open>allocate(8192, 0, L3)\<close> on a manager with the default sizes creates the pages
  \<open>0x100000000\<close> and \<open>0x100001000\<close>.  \<open>deallocate(0x100000000)\<close> removes the first
  from the page table; the second is still there, in tier L3.
\<close>

theorem deallocate_leaves_second_page:
  "(case allocate (\<lambda>_. 0) 8192 0 L3_CXL_POOL (CXLMemoryManager_new 12 3 128 4096) of
      None \<Rightarrow> False
    | Some (va, s1) \<Rightarrow>
        (let s2 = deallocate va s1
         in va = 0x100000000
            \<and> page_table s1 va \<noteq> None \<and> page_table s1 (va + 4096) \<noteq> None
            \<and> page_table s2 va = None \<and> page_table s2 (va + 4096) \<noteq> None
            \<and> is_in_cache s2 (va + 4096) L3_CXL_POOL = Some True))"
  unfolding alloc_8192 option.case prod.case
  by (simp add: deallocate_def new_page_def CXLMemoryManager_new_def is_in_cache_def
      page_addr_of_def)

lemma alloc_4096_l3:
  "allocate (\<lambda>_. 0) 4096 0 L3_CXL_POOL (CXLMemoryManager_new 12 3 128 4096) =
   Some (0x100000000,
    (CXLMemoryManager_new 12 3 128 4096)
      \<lparr> page_table := [0x100000000 \<mapsto> new_page (\<lambda>_. 0) 0x100000000 0x20000000000 4096 L3_CXL_POOL 0 0],
        l3_pages := [0x100000000],
        next_virtual_addr := 0x100001000,
        next_physical_addr_l3 := 0x20000001000 \<rparr>)"
  by (simp add: allocate_def allocate_body_def CXLMemoryManager_new_def num_pages_def
      required_bytes_def actual_tier_def create_pages_def Let_def upt_rec)

lemma alloc_4096_l1:
  "allocate (\<lambda>_. 0) 4096 0 L1_GPU_LOCAL (CXLMemoryManager_new 12 3 128 4096) =
   Some (0x100000000,
    (CXLMemoryManager_new 12 3 128 4096)
      \<lparr> page_table := [0x100000000 \<mapsto> new_page (\<lambda>_. 0) 0x100000000 0x8000000000 4096 L1_GPU_LOCAL 0 0],
        l1_pages := [0x100000000],
        next_virtual_addr := 0x100001000,
        next_physical_addr_l1 := 0x8000001000 \<rparr>)"
  by (simp add: allocate_def allocate_body_def CXLMemoryManager_new_def num_pages_def
      required_bytes_def actual_tier_def create_pages_def can_fit_in_tier_def Let_def upt_rec)

lemma track_l3_page:
  "update_access_tracking 1 0x100000000
     ((CXLMemoryManager_new 12 3 128 4096)
      \<lparr> page_table := [0x100000000 \<mapsto> new_page (\<lambda>_. 0) 0x100000000 0x20000000000 4096 L3_CXL_POOL 0 0],
        l3_pages := [0x100000000],
        next_virtual_addr := 0x100001000,
        next_physical_addr_l3 := 0x20000001000 \<rparr>)
   = Some ((CXLMemoryManager_new 12 3 128 4096)
      \<lparr> page_table := [0x100000000 \<mapsto>
            (new_page (\<lambda>_. 0) 0x100000000 0x20000000000 4096 L3_CXL_POOL 0 0)
              \<lparr>access_count_page := 1, last_access_time_page := 1\<rparr>],
        l3_pages := [0x100000000],
        next_virtual_addr := 0x100001000,
        next_physical_addr_l3 := 0x20000001000,
        l1_lru_list := [0x100000000],
        stats_mm := Statistics_mm_zero\<lparr>l3_accesses := 1\<rparr> \<rparr>)"
  by (simp add: update_access_tracking_def update_lru_def get_page_def new_page_def
      CXLMemoryManager_new_def page_addr_of_def Let_def Statistics_mm_zero_def)

text \<open>
  C5.  After \<open>allocate(4096, 0, L3)\<close> and one \<open>update_access_tracking\<close> of the page,
  the L1 LRU list holds the page although its tier is L3: \<open>update_access_tracking\<close>
  calls \<open>update_lru\<close> whatever the tier.  And after \<open>allocate(4096, 0, L1)\<close> the page
  is in L1 while the LRU list is empty.
\<close>

theorem lru_list_holds_l3_page:
  "(case allocate (\<lambda>_. 0) 4096 0 L3_CXL_POOL (CXLMemoryManager_new 12 3 128 4096) of
      None \<Rightarrow> False
    | Some (va, s1) \<Rightarrow>
        (case update_access_tracking 1 va s1 of
           None \<Rightarrow> False
         | Some s2 \<Rightarrow>
             l1_lru_list s1 = [] \<and> l1_lru_list s2 = [va]
             \<and> is_in_cache s2 va L3_CXL_POOL = Some True
             \<and> is_in_cache s2 va L1_GPU_LOCAL = Some False))
   \<and> (case allocate (\<lambda>_. 0) 4096 0 L1_GPU_LOCAL (CXLMemoryManager_new 12 3 128 4096) of
        None \<Rightarrow> False
      | Some (va, s1) \<Rightarrow> is_in_cache s1 va L1_GPU_LOCAL = Some True \<and> l1_lru_list s1 = [])"
  unfolding alloc_4096_l3 alloc_4096_l1 option.case prod.case track_l3_page
  by (simp add: new_page_def CXLMemoryManager_new_def is_in_cache_def page_addr_of_def)

lemma alloc_zero:
  "allocate now 0 layer L3_CXL_POOL (CXLMemoryManager_new 12 3 128 4096) =
   Some (0x100000000, (CXLMemoryManager_new 12 3 128 4096) \<lparr> l3_pages := [0x100000000] \<rparr>)"
  by (simp add: allocate_def allocate_body_def CXLMemoryManager_new_def num_pages_def
      required_bytes_def actual_tier_def create_pages_def Let_def)

lemma alloc_zero_again:
  "allocate now 0 layer L3_CXL_POOL
     ((CXLMemoryManager_new 12 3 128 4096) \<lparr> l3_pages := [0x100000000] \<rparr>) =
   Some (0x100000000,
     (CXLMemoryManager_new 12 3 128 4096) \<lparr> l3_pages := [0x100000000, 0x100000000] \<rparr>)"
  by (simp add: allocate_def allocate_body_def CXLMemoryManager_new_def num_pages_def
      required_bytes_def actual_tier_def create_pages_def Let_def)

text \<open>
  C10 as stated fails for a request of size 0: it needs no page, the cursor does not
  move, and the next call returns the same base.
\<close>

theorem allocate_zero_size_repeats_base:
  "allocate_all (\<lambda>_. 0) [(0, 0, L3_CXL_POOL), (0, 0, L3_CXL_POOL)]
     (CXLMemoryManager_new 12 3 128 4096)
   = Some [0x100000000, 0x100000000]"
  by (simp only: allocate_all.simps alloc_zero alloc_zero_again option.case prod.case
      option.map)


section \<open>Allocator: allocation never fails\<close>

lemma allocate_fst:
  "fst (allocate_body now size_bytes layer preferred_tier s) = next_virtual_addr s"
  by (simp add: allocate_body_def Let_def split: MemoryTier.splits)

lemma allocate_cursor:
  "next_virtual_addr (snd (allocate_body now size_bytes layer preferred_tier s))
   = next_virtual_addr s + required_bytes s size_bytes"
  by (simp add: allocate_body_def Let_def split: MemoryTier.splits)

lemma allocate_page_size:
  "page_size (snd (allocate_body now size_bytes layer preferred_tier s)) = page_size s"
  by (simp add: allocate_body_def Let_def split: MemoryTier.splits)

lemma allocate_page_table:
  "page_table (snd (allocate_body now size_bytes layer preferred_tier s))
   = create_pages now (next_virtual_addr s)
       (case actual_tier s size_bytes preferred_tier of
          L1_GPU_LOCAL \<Rightarrow> next_physical_addr_l1 s
        | L2_PREFETCH \<Rightarrow> next_physical_addr_l2 s
        | L3_CXL_POOL \<Rightarrow> next_physical_addr_l3 s)
       (page_size s) (actual_tier s size_bytes preferred_tier) layer
       (unat (num_pages s size_bytes)) (page_table s)"
  by (simp add: allocate_body_def Let_def split: MemoryTier.splits)

lemma required_bytes_after_allocate:
  "required_bytes (snd (allocate_body now size_bytes layer preferred_tier s)) x
   = required_bytes s x"
  by (simp add: required_bytes_def num_pages_def allocate_page_size)

lemma allocate_Some:
  "page_size s \<noteq> 0 \<Longrightarrow>
   allocate now size_bytes layer preferred_tier s
   = Some (next_virtual_addr s, snd (allocate_body now size_bytes layer preferred_tier s))"
  using allocate_fst [of now size_bytes layer preferred_tier s]
  by (simp add: allocate_def prod_eq_iff)

lemma allocate_all_Some:
  "page_size s \<noteq> 0 \<Longrightarrow> allocate_all now reqs s = Some (allocate_all_body now reqs s)"
proof (induction reqs arbitrary: s)
  case Nil
  then show ?case by simp
next
  case (Cons r reqs)
  obtain size_bytes layer preferred_tier where r: "r = (size_bytes, layer, preferred_tier)"
    by (cases r)
  have "page_size (snd (allocate_body now size_bytes layer preferred_tier s)) \<noteq> 0"
    using Cons.prems by (simp add: allocate_page_size)
  then show ?case
    using Cons.prems Cons.IH [of "snd (allocate_body now size_bytes layer preferred_tier s)"]
    by (simp add: r allocate_Some case_prod_beta allocate_fst)
qed

lemma create_pages_Suc:
  "create_pages now va pb ps t layer (Suc n) pt
   = (create_pages now va pb ps t layer n pt)
       (va + of_nat n * ps \<mapsto> new_page now va pb ps t layer n)"
  by (simp add: create_pages_def)

lemma create_pages_lookup:
  "i < n \<Longrightarrow>
   \<exists>p. create_pages now va pb ps t layer n pt (va + of_nat i * ps) = Some p
       \<and> tier_page p = t"
proof (induction n)
  case 0
  then show ?case by simp
next
  case (Suc n)
  show ?case
  proof (cases "va + of_nat i * ps = va + of_nat n * ps")
    case True
    then show ?thesis by (simp add: create_pages_Suc new_page_def)
  next
    case False
    then have "i \<noteq> n" by auto
    then have "i < n" using Suc.prems by simp
    then show ?thesis using Suc.IH False by (simp add: create_pages_Suc)
  qed
qed

lemma allocate_all_length: "length (allocate_all_body now reqs s) = length reqs"
  by (induction reqs arbitrary: s) (auto simp: case_prod_beta Let_def)

lemma allocate_all_Cons:
  "allocate_all_body now ((size_bytes, layer, preferred_tier) # reqs) s
   = next_virtual_addr s
     # allocate_all_body now reqs (snd (allocate_body now size_bytes layer preferred_tier s))"
  by (simp add: case_prod_beta Let_def allocate_fst)

lemma allocate_all_increasing:
  "list_all (\<lambda>r. required_bytes s (fst r) \<noteq> 0) reqs \<Longrightarrow>
   unat (next_virtual_addr s) + sum_list (map (\<lambda>r. unat (required_bytes s (fst r))) reqs)
     < 2 ^ 64 \<Longrightarrow>
   sorted_wrt (<) (allocate_all_body now reqs s)
   \<and> (\<forall>b \<in> set (allocate_all_body now reqs s). next_virtual_addr s \<le> b)"
proof (induction reqs arbitrary: s)
  case Nil
  then show ?case by simp
next
  case (Cons r reqs)
  obtain size_bytes layer preferred_tier where r: "r = (size_bytes, layer, preferred_tier)"
    by (cases r)
  define s1 where "s1 = snd (allocate_body now size_bytes layer preferred_tier s)"
  define va where "va = next_virtual_addr s"
  define req where "req = required_bytes s size_bytes"
  have rb: "required_bytes s1 x = required_bytes s x" for x
    by (simp add: s1_def required_bytes_after_allocate)
  have c1: "next_virtual_addr s1 = va + req"
    by (simp add: s1_def va_def req_def allocate_cursor)
  have nz: "req \<noteq> 0" using Cons.prems(1) by (simp add: r req_def)
  have bound: "unat va + unat req
      + sum_list (map (\<lambda>r. unat (required_bytes s (fst r))) reqs) < 2 ^ 64"
    using Cons.prems(2) by (simp add: r va_def req_def)
  then have "unat va + unat req < 2 ^ LENGTH(64)" by simp
  then have u: "unat (va + req) = unat va + unat req"
    by (simp only: unat_add_lem)
  have "0 < unat req" using nz by (simp add: unat_gt_0)
  then have lt: "va < va + req" using u by (simp add: word_less_nat_alt)
  have "list_all (\<lambda>r. required_bytes s1 (fst r) \<noteq> 0) reqs"
    using Cons.prems(1) by (simp add: rb)
  moreover have "unat (next_virtual_addr s1)
      + sum_list (map (\<lambda>r. unat (required_bytes s1 (fst r))) reqs) < 2 ^ 64"
    using bound by (simp add: rb c1 u)
  ultimately have ih: "sorted_wrt (<) (allocate_all_body now reqs s1)"
    "\<forall>b \<in> set (allocate_all_body now reqs s1). va + req \<le> b"
    using Cons.IH [of s1] by (simp_all add: c1)
  have all: "allocate_all_body now (r # reqs) s = va # allocate_all_body now reqs s1"
    by (simp only: r allocate_all_Cons va_def s1_def)
  have "\<forall>b \<in> set (allocate_all_body now reqs s1). va < b"
    using ih(2) lt by auto
  then show ?case
    unfolding all using ih(1) by (auto simp: va_def)
qed

text \<open>
  C10 as amended.  On a manager with a nonzero page size \<open>allocate\<close> has no failure
  path: for every size, layer and preferred tier it returns the cursor
  \<open>next_virtual_addr_\<close> and advances it by the rounded size.  Capacity is consulted
  only for a preferred tier L1, which falls back to L3; a request for L2 or L3 is placed
  there whatever the capacity, and every page of the allocation carries that tier.
  Every request of a run gets a base.  When every request of a run rounds up to at
  least one page and the 64-bit cursor does not wrap, the bases returned are nonzero
  and strictly increasing.
\<close>

theorem allocate_never_fails:
  assumes "page_size s \<noteq> 0"
  shows
  "(\<exists>s'. allocate now size_bytes layer preferred_tier s = Some (next_virtual_addr s, s')
        \<and> next_virtual_addr s' = next_virtual_addr s + required_bytes s size_bytes
        \<and> (\<forall>i < unat (num_pages s size_bytes).
              \<exists>p. page_table s' (next_virtual_addr s + of_nat i * page_size s) = Some p
                  \<and> tier_page p = actual_tier s size_bytes preferred_tier))
   \<and> actual_tier s size_bytes L2_PREFETCH = L2_PREFETCH
   \<and> actual_tier s size_bytes L3_CXL_POOL = L3_CXL_POOL
   \<and> actual_tier s size_bytes L1_GPU_LOCAL
       = (if can_fit_in_tier s L1_GPU_LOCAL (required_bytes s size_bytes)
          then L1_GPU_LOCAL else L3_CXL_POOL)
   \<and> (\<exists>bases. allocate_all now reqs s = Some bases
        \<and> length bases = length reqs
        \<and> (list_all (\<lambda>r. required_bytes s (fst r) \<noteq> 0) reqs
            \<and> unat (next_virtual_addr s)
                + sum_list (map (\<lambda>r. unat (required_bytes s (fst r))) reqs) < 2 ^ 64
            \<and> next_virtual_addr s \<noteq> 0
            \<longrightarrow> sorted_wrt (<) bases \<and> 0 \<notin> set bases))"
proof -
  define s' where "s' = snd (allocate_body now size_bytes layer preferred_tier s)"
  define bases where "bases = allocate_all_body now reqs s"
  have seq: "sorted_wrt (<) bases \<and> 0 \<notin> set bases"
    if h: "list_all (\<lambda>r. required_bytes s (fst r) \<noteq> 0) reqs"
       "unat (next_virtual_addr s)
           + sum_list (map (\<lambda>r. unat (required_bytes s (fst r))) reqs) < 2 ^ 64"
       "next_virtual_addr s \<noteq> 0"
  proof -
    have inc: "sorted_wrt (<) bases" "\<forall>b \<in> set bases. next_virtual_addr s \<le> b"
      using allocate_all_increasing [OF h(1,2), of now] by (simp_all add: bases_def)
    have "0 \<notin> set bases"
    proof
      assume "0 \<in> set bases"
      then have "next_virtual_addr s \<le> 0" using inc(2) by blast
      then show False using h(3) by simp
    qed
    then show ?thesis using inc(1) by simp
  qed
  have run: "allocate_all now reqs s = Some bases" "length bases = length reqs"
    using assms by (simp_all add: bases_def allocate_all_Some allocate_all_length)
  have one: "allocate now size_bytes layer preferred_tier s = Some (next_virtual_addr s, s')"
    "next_virtual_addr s' = next_virtual_addr s + required_bytes s size_bytes"
    using assms by (simp_all add: s'_def allocate_Some allocate_cursor)
  have pages: "\<forall>i < unat (num_pages s size_bytes).
         \<exists>p. page_table s' (next_virtual_addr s + of_nat i * page_size s) = Some p
             \<and> tier_page p = actual_tier s size_bytes preferred_tier"
    unfolding s'_def by (simp only: allocate_page_table) (blast intro: create_pages_lookup)
  have tiers: "actual_tier s size_bytes L2_PREFETCH = L2_PREFETCH"
    "actual_tier s size_bytes L3_CXL_POOL = L3_CXL_POOL"
    "actual_tier s size_bytes L1_GPU_LOCAL
       = (if can_fit_in_tier s L1_GPU_LOCAL (required_bytes s size_bytes)
          then L1_GPU_LOCAL else L3_CXL_POOL)"
    by (simp_all add: actual_tier_def)
  have first: "\<exists>s'. allocate now size_bytes layer preferred_tier s = Some (next_virtual_addr s, s')
        \<and> next_virtual_addr s' = next_virtual_addr s + required_bytes s size_bytes
        \<and> (\<forall>i < unat (num_pages s size_bytes).
              \<exists>p. page_table s' (next_virtual_addr s + of_nat i * page_size s) = Some p
                  \<and> tier_page p = actual_tier s size_bytes preferred_tier)"
    using one pages by blast
  have last: "\<exists>bases. allocate_all now reqs s = Some bases
        \<and> length bases = length reqs
        \<and> (list_all (\<lambda>r. required_bytes s (fst r) \<noteq> 0) reqs
            \<and> unat (next_virtual_addr s)
                + sum_list (map (\<lambda>r. unat (required_bytes s (fst r))) reqs) < 2 ^ 64
            \<and> next_virtual_addr s \<noteq> 0
            \<longrightarrow> sorted_wrt (<) bases \<and> 0 \<notin> set bases)"
    using run seq by blast
  show ?thesis
    using first tiers last by (simp only: simp_thms)
qed

theorem allocate_never_fails_witness:
  "page_size (CXLMemoryManager_new 12 0 128 4096) \<noteq> 0
   \<and> \<not> can_fit_in_tier (CXLMemoryManager_new 12 0 128 4096) L2_PREFETCH 4096
   \<and> (\<exists>s'. allocate (\<lambda>_. 0) 4096 0 L2_PREFETCH (CXLMemoryManager_new 12 0 128 4096)
             = Some (0x100000000, s')
          \<and> (\<exists>p. page_table s' 0x100000000 = Some p \<and> tier_page p = L2_PREFETCH))
   \<and> list_all (\<lambda>r. required_bytes (CXLMemoryManager_new 12 0 128 4096) (fst r) \<noteq> 0)
        [(4096, 0 :: 32 word, L2_PREFETCH), (1, 0, L1_GPU_LOCAL), (8192, 1, L3_CXL_POOL)]
   \<and> (\<exists>bases. allocate_all (\<lambda>_. 0)
          [(4096, 0, L2_PREFETCH), (1, 0, L1_GPU_LOCAL), (8192, 1, L3_CXL_POOL)]
          (CXLMemoryManager_new 12 0 128 4096) = Some bases
        \<and> length bases = 3 \<and> sorted_wrt (<) bases \<and> 0 \<notin> set bases)"
proof -
  define s0 where "s0 = CXLMemoryManager_new 12 0 128 4096"
  define reqs :: "(64 word \<times> 32 word \<times> MemoryTier) list"
    where "reqs = [(4096, 0, L2_PREFETCH), (1, 0, L1_GPU_LOCAL), (8192, 1, L3_CXL_POOL)]"
  have ps: "page_size s0 = 4096" and nv: "next_virtual_addr s0 = 0x100000000"
    and l2: "l2_pages s0 = []" "l2_size_bytes s0 = 0"
    by (simp_all add: s0_def CXLMemoryManager_new_def)
  have h0: "page_size s0 \<noteq> 0" by (simp add: ps)
  have np: "num_pages s0 4096 = 1" "num_pages s0 1 = 1" "num_pages s0 8192 = 2"
    by (simp_all add: num_pages_def ps)
  have rb: "required_bytes s0 4096 = 4096" "required_bytes s0 1 = 4096"
    "required_bytes s0 8192 = 8192"
    by (simp_all add: required_bytes_def np ps)
  have nofit: "\<not> can_fit_in_tier s0 L2_PREFETCH 4096"
    by (simp add: can_fit_in_tier_def l2)
  have h1: "list_all (\<lambda>r. required_bytes s0 (fst r) \<noteq> 0) reqs"
    by (simp add: reqs_def rb)
  have h2: "unat (next_virtual_addr s0)
           + sum_list (map (\<lambda>r. unat (required_bytes s0 (fst r))) reqs) < 2 ^ 64"
    by (simp add: reqs_def rb nv)
  have h3: "next_virtual_addr s0 \<noteq> 0" by (simp add: nv)
  have h4: "0 < unat (num_pages s0 4096)" by (simp add: np)
  note t = allocate_never_fails [OF h0, of "\<lambda>_. 0" 4096 0 L2_PREFETCH reqs]
  from t obtain s' where s':
    "allocate (\<lambda>_. 0) 4096 0 L2_PREFETCH s0 = Some (next_virtual_addr s0, s')"
    "\<forall>i < unat (num_pages s0 4096).
        \<exists>p. page_table s' (next_virtual_addr s0 + of_nat i * page_size s0) = Some p
            \<and> tier_page p = actual_tier s0 4096 L2_PREFETCH"
    by blast
  from s'(2) [rule_format, OF h4]
  have pg: "\<exists>p. page_table s' 0x100000000 = Some p \<and> tier_page p = L2_PREFETCH"
    by (simp add: nv actual_tier_def)
  have a: "\<exists>s'. allocate (\<lambda>_. 0) 4096 0 L2_PREFETCH s0 = Some (0x100000000, s')
          \<and> (\<exists>p. page_table s' 0x100000000 = Some p \<and> tier_page p = L2_PREFETCH)"
    using s'(1) pg nv by auto
  from t obtain bases where bases:
    "allocate_all (\<lambda>_. 0) reqs s0 = Some bases" "length bases = length reqs"
    "sorted_wrt (<) bases \<and> 0 \<notin> set bases"
    using h1 h2 h3 by blast
  have c: "\<exists>bases. allocate_all (\<lambda>_. 0) reqs s0 = Some bases
        \<and> length bases = 3 \<and> sorted_wrt (<) bases \<and> 0 \<notin> set bases"
    using bases by (auto simp: reqs_def)
  show ?thesis
    using h0 nofit a h1 c unfolding s0_def reqs_def by (simp only: simp_thms)
qed


section \<open>Prefetcher: adaptive depth\<close>

lemma push_accuracy_ones:
  "m \<le> 100 \<Longrightarrow> push_accuracy (replicate m 1) 100 1 = replicate (min (Suc m) 100) 1"
proof (cases "m < 100")
  case True
  then show ?thesis by (simp add: push_accuracy_def replicate_append_same min_def)
next
  case False
  assume "m \<le> 100"
  then have m: "m = 100" using False by simp
  have "replicate 100 (1::real) @ [1] = 1 # replicate 100 1"
    by (simp add: replicate_append_same)
  then show ?thesis unfolding m by (simp add: push_accuracy_def)
qed

lemma recent_accuracy_ones: "10 \<le> m \<Longrightarrow> recent_accuracy_of (replicate m 1) = 1"
  by (simp add: recent_accuracy_of_def sum_list_replicate)

lemma update_ones:
  assumes "m \<le> 100"
  shows "update_prediction_accuracy r True
           \<lparr> prefetch_depth = p, adaptive_depth = d, accuracy_history = replicate m 1,
             accuracy_window_size = 100 \<rparr>
         = \<lparr> prefetch_depth = p,
             adaptive_depth = (if 9 \<le> m \<and> d < 8 then d + 1 else d),
             accuracy_history = replicate (min (Suc m) 100) 1,
             accuracy_window_size = 100 \<rparr>"
proof -
  define m' where "m' = min (Suc m) 100"
  have push: "push_accuracy (replicate m 1) 100 1 = replicate m' 1"
    unfolding m'_def by (rule push_accuracy_ones [OF assms])
  show ?thesis
  proof (cases "9 \<le> m")
    case True
    then have "10 \<le> m'" using assms by (simp add: m'_def)
    then have "update_prediction_accuracy r True
           \<lparr> prefetch_depth = p, adaptive_depth = d, accuracy_history = replicate m 1,
             accuracy_window_size = 100 \<rparr>
         = \<lparr> prefetch_depth = p, adaptive_depth = (if d < 8 then d + 1 else d),
             accuracy_history = replicate m' 1, accuracy_window_size = 100 \<rparr>"
      by (simp add: update_prediction_accuracy_def push recent_accuracy_ones Let_def)
    then show ?thesis using True by (simp add: m'_def)
  next
    case False
    then have "\<not> 10 \<le> m'" by (simp add: m'_def)
    then have "update_prediction_accuracy r True
           \<lparr> prefetch_depth = p, adaptive_depth = d, accuracy_history = replicate m 1,
             accuracy_window_size = 100 \<rparr>
         = \<lparr> prefetch_depth = p, adaptive_depth = d,
             accuracy_history = replicate m' 1, accuracy_window_size = 100 \<rparr>"
      by (simp add: update_prediction_accuracy_def push Let_def)
    then show ?thesis using False by (simp add: m'_def)
  qed
qed

lemma update_all_true:
  "update_prediction_accuracy r True (all_true_state n) = all_true_state (Suc n)"
proof -
  have "update_prediction_accuracy r True (all_true_state n)
        = \<lparr> prefetch_depth = 4,
            adaptive_depth =
              (if 9 \<le> min n 100 \<and> (if n < 10 then 4 else min 8 (n - 5)) < 8
               then (if n < 10 then 4 else min 8 (n - 5)) + 1
               else (if n < 10 then 4 else min 8 (n - 5))),
            accuracy_history = replicate (min (Suc (min n 100)) 100) 1,
            accuracy_window_size = 100 \<rparr>"
    unfolding all_true_state_def by (rule update_ones) simp
  also have "\<dots> = all_true_state (Suc n)"
    unfolding all_true_state_def by (auto simp: min_def)
  finally show ?thesis .
qed

lemma feed_all_true: "feed (replicate n True) (SpeculativePrefetcher_new 4) = all_true_state n"
proof (induction n)
  case 0
  then show ?case by (simp add: feed_def SpeculativePrefetcher_new_def all_true_state_def)
next
  case (Suc n)
  have "replicate (Suc n) True = replicate n True @ [True]"
    by (simp add: replicate_append_same)
  then show ?case using Suc by (simp add: feed_def update_all_true del: replicate.simps)
qed

text \<open>
  C6 as amended.  Starting from depth 4 with an empty window, after \<open>n\<close> calls of
  \<open>update_prediction_accuracy(_, true)\<close> the depth is 4 while \<open>n < 10\<close> and
  \<open>min 8 (n - 5)\<close> from then on: the first increment fires at the 10th call, one more
  at each of the calls 11, 12 and 13, and the depth stays at the cap 8; after 20
  calls it is 8.
\<close>

theorem adaptive_depth_all_true:
  "adaptive_depth (feed (replicate n True) (SpeculativePrefetcher_new 4))
   = (if n < 10 then 4 else min 8 (n - 5))
   \<and> adaptive_depth (feed (replicate 9 True) (SpeculativePrefetcher_new 4)) = 4
   \<and> adaptive_depth (feed (replicate 10 True) (SpeculativePrefetcher_new 4)) = 5
   \<and> adaptive_depth (feed (replicate 13 True) (SpeculativePrefetcher_new 4)) = 8
   \<and> adaptive_depth (feed (replicate 20 True) (SpeculativePrefetcher_new 4)) = 8"
  by (simp add: feed_all_true all_true_state_def)

text \<open>
  C6 as stated fails: after 20 calls the depth is 8, not 5.
\<close>

theorem adaptive_depth_after_20_counterexample:
  "adaptive_depth (feed (replicate 20 True) (SpeculativePrefetcher_new 4)) = 8
   \<and> adaptive_depth (feed (replicate 20 True) (SpeculativePrefetcher_new 4)) \<noteq> 5"
  by (simp add: feed_all_true all_true_state_def)

end
